theory Spec2Isabelle
  imports Main "HOL-Library.AList" "HOL-Library.Char_ord" "HOL-Library.List_Lexorder"
begin

section \<open>Python values, dictionaries and the store\<close>

text \<open>
  The exceptions raised (explicitly or by a failed subscript) in the modelled code.
  \<open>ValueError\<close> is the spec's InvalidArgument, \<open>RuntimeError\<close> its
  ConfigurationConflict, \<open>KeyError\<close> its MissingField.
\<close>

datatype error = KeyError | TypeError | ValueError | RuntimeError | AttributeError

text \<open>
  The values a rule parameter can take: strings, numbers and booleans, and \<open>None\<close>,
  which any Python dict can hold. Numbers are Python's unbounded integers; floats are
  left out.
\<close>

datatype pyval = PNone | PBool bool | PInt int | PStr string

text \<open>
  A dict is an association list in insertion order; a Python dict never holds a key
  twice, which is the invariant \<open>distinct (map fst d)\<close>.
\<close>

type_synonym dict = "(string \<times> pyval) list"

definition dict_get :: "(string \<times> 'v) list \<Rightarrow> string \<Rightarrow> 'v option" where
  "dict_get d k = map_of d k"

text \<open>\<open>d[k] = v\<close>: an existing key keeps its place, a new one goes to the end.\<close>

definition dict_setitem :: "(string \<times> 'v) list \<Rightarrow> string \<Rightarrow> 'v \<Rightarrow> (string \<times> 'v) list" where
  "dict_setitem d k v = AList.update k v d"

text \<open>\<open>d.update(other)\<close>: the items of \<open>other\<close> are assigned in their order.\<close>

definition dict_update :: "(string \<times> 'v) list \<Rightarrow> (string \<times> 'v) list \<Rightarrow> (string \<times> 'v) list" where
  "dict_update d other = fold (\<lambda>(k, v) acc. dict_setitem acc k v) other d"

text \<open>\<open>str(n)\<close> for a natural number and for an integer: the decimal digits.\<close>

definition digit_char :: "nat \<Rightarrow> char" where
  "digit_char d = ''0123456789'' ! d"

fun str_nat :: "nat \<Rightarrow> string" where
  "str_nat n = (if n < 10 then [digit_char n] else str_nat (n div 10) @ [digit_char (n mod 10)])"

declare str_nat.simps [simp del]

definition str_int :: "int \<Rightarrow> string" where
  "str_int i = (if i < 0 then CHR ''-'' # str_nat (nat (- i)) else str_nat (nat i))"

text \<open>\<open>str(v)\<close> and \<open>bool(v)\<close> on parameter values.\<close>

fun py_str :: "pyval \<Rightarrow> string" where
  "py_str PNone = ''None''"
| "py_str (PBool b) = (if b then ''True'' else ''False'')"
| "py_str (PInt i) = str_int i"
| "py_str (PStr s) = s"

text \<open>\<open>bool(s)\<close> for an argument that is a string or \<open>None\<close>.\<close>

definition py_bool :: "string option \<Rightarrow> bool" where
  "py_bool s = (case s of None \<Rightarrow> False | Some x \<Rightarrow> x \<noteq> [])"

text \<open>\<open>a == b\<close> on parameter values; \<open>bool\<close> is a subclass of \<open>int\<close>, so
  \<open>True == 1\<close>.\<close>

fun pyval_eq :: "pyval \<Rightarrow> pyval \<Rightarrow> bool" where
  "pyval_eq (PBool a) (PInt i) = (i = (if a then 1 else 0))"
| "pyval_eq (PInt i) (PBool a) = (i = (if a then 1 else 0))"
| "pyval_eq a b = (a = b)"

text \<open>
  The rule-parameter dicts are objects that the modelled code creates, hands out by
  reference and writes to, so they live in a store: \<open>cells\<close> maps an address to the
  dict held there, and the addresses below \<open>next_free\<close> are the allocated ones.
\<close>

record store =
  cells :: "nat \<Rightarrow> dict"
  next_free :: nat

text \<open>\<open>{}\<close>: a new empty dict.\<close>

definition new_dict :: "store \<Rightarrow> nat \<times> store" where
  "new_dict st = (next_free st,
     st\<lparr>cells := (cells st)(next_free st := []), next_free := Suc (next_free st)\<rparr>)"

definition store_setitem :: "nat \<Rightarrow> string \<Rightarrow> pyval \<Rightarrow> store \<Rightarrow> store" where
  "store_setitem a k v st = st\<lparr>cells := (cells st)(a := dict_setitem (cells st a) k v)\<rparr>"

definition store_update :: "nat \<Rightarrow> dict \<Rightarrow> store \<Rightarrow> store" where
  "store_update a other st = st\<lparr>cells := (cells st)(a := dict_update (cells st a) other)\<rparr>"

text \<open>\<open>rule_parameters or {}\<close>: the items of the dict referred to, none for \<open>None\<close>.\<close>

definition or_empty :: "nat option \<Rightarrow> store \<Rightarrow> dict" where
  "or_empty r st = (case r of None \<Rightarrow> [] | Some a \<Rightarrow> cells st a)"

text \<open>
  Modelled from the spec: \<open>build_dict\<close> of \<open>sagemaker.utils\<close> is imported by
  \<open>debugger.py\<close> and is not among the sources. The spec describes its use: a key is
  "included only if its source attribute is non-absent", and \<open>source_s3_uri\<close> is there
  "if source given".
\<close>

definition build_dict :: "string \<Rightarrow> 'v option \<Rightarrow> (string \<times> 'v) list" where
  "build_dict key v = (case v of None \<Rightarrow> [] | Some x \<Rightarrow> [(key, x)])"

section \<open>Rule parameters: \<open>RuleBase._set_rule_parameters\<close>\<close>

definition RuleBase_set_rule_parameters ::
  "string option \<Rightarrow> string option \<Rightarrow> nat option \<Rightarrow> store \<Rightarrow> error + (nat \<times> store)" where
  "RuleBase_set_rule_parameters source rule_to_invoke rule_parameters st =
     (if py_bool source \<noteq> py_bool rule_to_invoke then Inl ValueError
      else
        let (merged_rule_params, st1) = new_dict st;
            st2 = store_update merged_rule_params
                    (build_dict ''source_s3_uri'' (map_option PStr source)) st1;
            st3 = store_update merged_rule_params
                    (build_dict ''rule_to_invoke'' (map_option PStr rule_to_invoke)) st2;
            st4 = store_update merged_rule_params (or_empty rule_parameters st3) st3
        in Inr (merged_rule_params, st4))"

text \<open>
  \<open>Rule._set_rule_parameters\<close>: the entries for the other trials first, then the
  result of the base class's helper. The loop is
  \<open>for index, s3_input_path in enumerate(other_trials_s3_input_paths)\<close>.
\<close>

fun other_trials_loop :: "nat \<Rightarrow> nat \<Rightarrow> string list \<Rightarrow> store \<Rightarrow> store" where
  "other_trials_loop merged index [] st = st"
| "other_trials_loop merged index (s3_input_path # rest) st =
     other_trials_loop merged (Suc index) rest
       (store_setitem merged (''other_trial_'' @ str_nat index) (PStr s3_input_path) st)"

definition Rule_set_rule_parameters ::
  "string option \<Rightarrow> string option \<Rightarrow> string list option \<Rightarrow> nat option \<Rightarrow> store
     \<Rightarrow> error + (nat \<times> store)" where
  "Rule_set_rule_parameters source rule_to_invoke other_trials_s3_input_paths rule_parameters st =
     (let (merged_rule_params, st1) = new_dict st;
          st2 = (case other_trials_s3_input_paths of
                   None \<Rightarrow> st1
                 | Some paths \<Rightarrow> other_trials_loop merged_rule_params 0 paths st1)
      in case RuleBase_set_rule_parameters source rule_to_invoke rule_parameters st2 of
           Inl e \<Rightarrow> Inl e
         | Inr (base_params, st3) \<Rightarrow>
             Inr (merged_rule_params,
                  store_update merged_rule_params (cells st3 base_params) st3))"

section \<open>The configuration objects\<close>

text \<open>
  \<open>CollectionConfig\<close>, \<open>DebuggerHookConfig\<close> and \<open>TensorBoardOutputConfig\<close>. Their
  dicts are never written to by the modelled code and are held by value. An attribute
  that can be \<open>None\<close> has an option type. Fields that several classes name alike carry
  the class as a prefix here.
\<close>

record CollectionConfig =
  collection_name :: "string option"
  parameters :: "dict option"

record DebuggerHookConfig =
  hook_s3_output_path :: "string option"
  hook_container_local_output_path :: "string option"
  hook_parameters :: "dict option"
  hook_collection_configs :: "CollectionConfig list option"

record TensorBoardOutputConfig =
  tb_s3_output_path :: "string option"
  tb_container_local_output_path :: "string option"

text \<open>
  \<open>RuleBase\<close> with its seven attributes; \<open>rule_parameters\<close> is a reference into the
  store or \<open>None\<close>. \<open>Rule\<close> adds the collection configs; \<open>ProfilerRule\<close> adds
  nothing.
\<close>

record RuleBase =
  name :: "string option"
  image_uri :: string
  instance_type :: "string option"
  container_local_output_path :: "string option"
  s3_output_path :: "string option"
  volume_size_in_gb :: "int option"
  rule_parameters :: "nat option"

record Rule = RuleBase +
  collection_configs :: "CollectionConfig list"

type_synonym ProfilerRule = RuleBase

text \<open>
  The base config of a built-in rule, as \<open>Rule.sagemaker\<close> reads it: the key
  \<open>DebugRuleConfiguration\<close> (subscripted, so a missing key raises) with the optional
  keys \<open>RuleConfigurationName\<close> and \<open>RuleParameters\<close> below it, and the optional key
  \<open>CollectionConfigurations\<close>, a list of dicts with the optional keys
  \<open>CollectionName\<close> and \<open>CollectionParameters\<close>. \<open>None\<close> is a missing key.
\<close>

record DebugRuleConfiguration =
  RuleConfigurationName :: "string option"
  RuleParameters :: "dict option"

record CollectionConfiguration =
  CollectionName :: "string option"
  CollectionParameters :: "dict option"

record base_config =
  DebugRuleConfiguration_key :: "DebugRuleConfiguration option"
  CollectionConfigurations_key :: "CollectionConfiguration list option"

text \<open>
  The values of a request dict: a plain value, a reference to a rule-parameter dict in
  the store, a dict held by value, or a list of request dicts.
\<close>

datatype reqval =
    RVal pyval
  | RRef nat
  | RDict dict
  | RList "(string \<times> reqval) list list"

type_synonym request = "(string \<times> reqval) list"

definition opt_str :: "string option \<Rightarrow> pyval" where
  "opt_str s = (case s of None \<Rightarrow> PNone | Some x \<Rightarrow> PStr x)"

section \<open>The factories \<open>Rule.sagemaker\<close> and \<open>Rule.custom\<close>\<close>

text \<open>
  The check on \<open>rule_to_invoke\<close>:
  \<open>rule_parameters is not None and rule_parameters.get("rule_to_invoke") is not None\<close>.
\<close>

definition rule_to_invoke_given :: "nat option \<Rightarrow> store \<Rightarrow> bool" where
  "rule_to_invoke_given rule_params_arg st =
     (case rule_params_arg of
        None \<Rightarrow> False
      | Some a \<Rightarrow>
          (case dict_get (cells st a) ''rule_to_invoke'' of
             None \<Rightarrow> False
           | Some v \<Rightarrow> v \<noteq> PNone))"

text \<open>
  The loop over \<open>base_config.get("CollectionConfigurations", [])\<close>: the inner loop over
  the items of each config keeps the value of \<open>CollectionName\<close> (\<open>None\<close> without the
  key) and of \<open>CollectionParameters\<close> (\<open>{}\<close> without the key).
\<close>

definition base_config_collections :: "base_config \<Rightarrow> CollectionConfig list" where
  "base_config_collections base_config =
     map (\<lambda>config.
            \<lparr>collection_name = CollectionName config,
             parameters = Some (case CollectionParameters config of None \<Rightarrow> [] | Some p \<Rightarrow> p)\<rparr>)
       (case CollectionConfigurations_key base_config of None \<Rightarrow> [] | Some cs \<Rightarrow> cs)"

definition Rule_sagemaker ::
  "base_config \<Rightarrow> string option \<Rightarrow> string option \<Rightarrow> string option \<Rightarrow> string list option
     \<Rightarrow> nat option \<Rightarrow> CollectionConfig list option \<Rightarrow> store \<Rightarrow> error + (Rule \<times> store)" where
  "Rule_sagemaker base_config name_arg local_path_arg s3_path_arg other_trials_s3_input_paths
       rule_params_arg collections_to_save st =
     (let (merged_rule_params, st1) = new_dict st
      in if rule_to_invoke_given rule_params_arg st1 then Inl RuntimeError
         else
           let st2 = (case other_trials_s3_input_paths of
                        None \<Rightarrow> st1
                      | Some paths \<Rightarrow> other_trials_loop merged_rule_params 0 paths st1)
           in case DebugRuleConfiguration_key base_config of
                None \<Rightarrow> Inl KeyError
              | Some debug_rule_configuration \<Rightarrow>
                  let default_rule_params =
                        (case RuleParameters debug_rule_configuration of
                           None \<Rightarrow> [] | Some p \<Rightarrow> p);
                      st3 = store_update merged_rule_params default_rule_params st2;
                      st4 = store_update merged_rule_params (or_empty rule_params_arg st3) st3
                  in Inr (\<lparr>name = (if py_bool name_arg then name_arg
                                    else RuleConfigurationName debug_rule_configuration),
                           image_uri = ''DEFAULT_RULE_EVALUATOR_IMAGE'',
                           instance_type = None,
                           container_local_output_path = local_path_arg,
                           s3_output_path = s3_path_arg,
                           volume_size_in_gb = None,
                           rule_parameters = Some merged_rule_params,
                           collection_configs =
                             (case collections_to_save of
                                None \<Rightarrow> base_config_collections base_config
                              | Some cs \<Rightarrow>
                                  if cs = [] then base_config_collections base_config else cs)\<rparr>,
                          st4))"

definition Rule_custom ::
  "string option \<Rightarrow> string \<Rightarrow> string option \<Rightarrow> int option \<Rightarrow> string option \<Rightarrow> string option
     \<Rightarrow> string option \<Rightarrow> string option \<Rightarrow> string list option \<Rightarrow> nat option
     \<Rightarrow> CollectionConfig list option \<Rightarrow> store \<Rightarrow> error + (Rule \<times> store)" where
  "Rule_custom name_arg image_arg instance_arg volume_arg source rule_to_invoke local_path_arg
       s3_path_arg other_trials_s3_input_paths rule_params_arg collections_to_save st =
     (case Rule_set_rule_parameters source rule_to_invoke other_trials_s3_input_paths
             rule_params_arg st of
        Inl e \<Rightarrow> Inl e
      | Inr (merged_rule_params, st1) \<Rightarrow>
          Inr (\<lparr>name = name_arg,
                image_uri = image_arg,
                instance_type = instance_arg,
                container_local_output_path = local_path_arg,
                s3_output_path = s3_path_arg,
                volume_size_in_gb = volume_arg,
                rule_parameters = Some merged_rule_params,
                collection_configs = (case collections_to_save of None \<Rightarrow> [] | Some cs \<Rightarrow> cs)\<rparr>,
               st1))"

section \<open>Serialization\<close>

text \<open>The keys that the two rule serializers share, up to \<open>S3OutputPath\<close>.\<close>

definition rule_config_request :: "'a RuleBase_scheme \<Rightarrow> request" where
  "rule_config_request self =
     (let request = [(''RuleConfigurationName'', RVal (opt_str (name self))),
                     (''RuleEvaluatorImage'', RVal (PStr (image_uri self)))];
          request = dict_update request
                      (build_dict ''InstanceType'' (map_option (RVal \<circ> PStr) (instance_type self)));
          request = dict_update request
                      (build_dict ''VolumeSizeInGB'' (map_option (RVal \<circ> PInt) (volume_size_in_gb self)));
          request = dict_update request
                      (build_dict ''LocalPath''
                         (map_option (RVal \<circ> PStr) (container_local_output_path self)));
          request = dict_update request
                      (build_dict ''S3OutputPath'' (map_option (RVal \<circ> PStr) (s3_output_path self)))
      in request)"

definition to_debugger_rule_config_dict :: "Rule \<Rightarrow> request" where
  "to_debugger_rule_config_dict self =
     dict_update (rule_config_request self)
       (build_dict ''RuleParameters'' (map_option RRef (rule_parameters self)))"

text \<open>
  The loop of \<open>to_profiler_rule_config_dict\<close>,
  \<open>for k, v in request["RuleParameters"].items(): request["RuleParameters"][k] = str(v)\<close>:
  each step looks the dict up in the request again and assigns into it. The items are the
  ones the dict has when the loop starts: an assignment to a key that is there changes
  neither the keys nor their order, and each key is visited once.
\<close>

fun stringify_loop :: "request \<Rightarrow> (string \<times> pyval) list \<Rightarrow> store \<Rightarrow> store" where
  "stringify_loop request [] st = st"
| "stringify_loop request ((k, v) # items) st =
     stringify_loop request items
       (case dict_get request ''RuleParameters'' of
          Some (RRef a) \<Rightarrow> store_setitem a k (PStr (py_str v)) st
        | _ \<Rightarrow> st)"

definition to_profiler_rule_config_dict :: "ProfilerRule \<Rightarrow> store \<Rightarrow> request \<times> store" where
  "to_profiler_rule_config_dict self st =
     (let request = rule_config_request self
      in case rule_parameters self of
           None \<Rightarrow> (request, st)
         | Some a \<Rightarrow>
             if cells st a = [] then (request, st)
             else
               let request = dict_setitem request ''RuleParameters'' (RRef a)
               in (request, stringify_loop request (cells st a) st))"

definition CollectionConfig_to_request_dict :: "CollectionConfig \<Rightarrow> request" where
  "CollectionConfig_to_request_dict self =
     (let request = [(''CollectionName'', RVal (opt_str (collection_name self)))]
      in case parameters self of
           None \<Rightarrow> request
         | Some p \<Rightarrow> dict_setitem request ''CollectionParameters'' (RDict p))"

definition DebuggerHookConfig_to_request_dict :: "DebuggerHookConfig \<Rightarrow> request" where
  "DebuggerHookConfig_to_request_dict self =
     (let request = [(''S3OutputPath'', RVal (opt_str (hook_s3_output_path self)))];
          request = (case hook_container_local_output_path self of
                       None \<Rightarrow> request
                     | Some p \<Rightarrow> dict_setitem request ''LocalPath'' (RVal (PStr p)));
          request = (case hook_parameters self of
                       None \<Rightarrow> request
                     | Some p \<Rightarrow> dict_setitem request ''HookParameters'' (RDict p));
          request = (case hook_collection_configs self of
                       None \<Rightarrow> request
                     | Some cs \<Rightarrow>
                         dict_setitem request ''CollectionConfigurations''
                           (RList (map CollectionConfig_to_request_dict cs)))
      in request)"

definition TensorBoardOutputConfig_to_request_dict :: "TensorBoardOutputConfig \<Rightarrow> request" where
  "TensorBoardOutputConfig_to_request_dict self =
     (let request = [(''S3OutputPath'', RVal (opt_str (tb_s3_output_path self)))]
      in case tb_container_local_output_path self of
           None \<Rightarrow> request
         | Some p \<Rightarrow> dict_setitem request ''LocalPath'' (RVal (PStr p)))"

section \<open>Equality and hash of \<open>CollectionConfig\<close>\<close>

text \<open>
  \<open>a == b\<close> on two dicts: the same number of entries, and every key of \<open>a\<close> is in
  \<open>b\<close> with an equal value; the order of insertion plays no part. On two attributes
  that are a dict or \<open>None\<close>: \<open>None == None\<close>, and \<open>None\<close> equals no dict.
\<close>

definition dict_eq :: "dict \<Rightarrow> dict \<Rightarrow> bool" where
  "dict_eq a b =
     (length a = length b \<and>
      list_all (\<lambda>(k, v). case dict_get b k of None \<Rightarrow> False | Some w \<Rightarrow> pyval_eq v w) a)"

definition opt_dict_eq :: "dict option \<Rightarrow> dict option \<Rightarrow> bool" where
  "opt_dict_eq a b =
     (case (a, b) of
        (None, None) \<Rightarrow> True
      | (Some x, Some y) \<Rightarrow> dict_eq x y
      | _ \<Rightarrow> False)"

text \<open>The other operand of a comparison: a \<open>CollectionConfig\<close> or anything else.\<close>

datatype operand = IsCollectionConfig CollectionConfig | NotCollectionConfig

definition CollectionConfig_eq :: "CollectionConfig \<Rightarrow> operand \<Rightarrow> error + bool" where
  "CollectionConfig_eq self other =
     (case other of
        NotCollectionConfig \<Rightarrow> Inl TypeError
      | IsCollectionConfig c \<Rightarrow>
          Inr (collection_name self = collection_name c
               \<and> opt_dict_eq (parameters self) (parameters c)))"

definition CollectionConfig_ne :: "CollectionConfig \<Rightarrow> operand \<Rightarrow> error + bool" where
  "CollectionConfig_ne self other =
     (case other of
        NotCollectionConfig \<Rightarrow> Inl TypeError
      | IsCollectionConfig c \<Rightarrow>
          Inr (collection_name self \<noteq> collection_name c
               \<or> \<not> opt_dict_eq (parameters self) (parameters c)))"

text \<open>
  \<open>hash((self.name, tuple(sorted((self.parameters or {}).items()))))\<close>. The tuple is
  \<open>hash_key\<close>; \<open>sorted\<close> compares the items as pairs, and as no two items of a dict
  have the same key, that is the order of the keys (strings compare character by
  character). The builtin \<open>hash\<close> is a parameter: some function of the tuple.
\<close>

definition hash_key :: "CollectionConfig \<Rightarrow> string option \<times> (string \<times> pyval) list" where
  "hash_key self =
     (collection_name self,
      sort_key fst (case parameters self of None \<Rightarrow> [] | Some p \<Rightarrow> p))"

definition CollectionConfig_hash ::
  "(string option \<times> (string \<times> pyval) list \<Rightarrow> int) \<Rightarrow> CollectionConfig \<Rightarrow> int" where
  "CollectionConfig_hash builtin_hash self = builtin_hash (hash_key self)"

section \<open>Stores for the examples\<close>

text \<open>A store with nothing allocated, and one holding a caller's dict at address 0.\<close>

definition empty_store :: store where
  "empty_store = \<lparr>cells = (\<lambda>_. []), next_free = 0\<rparr>"

definition store_with :: "dict \<Rightarrow> store" where
  "store_with d = \<lparr>cells = (\<lambda>_. [])(0 := d), next_free = 1\<rparr>"

section \<open>Well-formed references\<close>

text \<open>
  An argument that is a dict or \<open>None\<close> refers to an allocated dict, and a dict holds
  no key twice.
\<close>

definition valid_ref :: "store \<Rightarrow> nat option \<Rightarrow> bool" where
  "valid_ref st r =
     (case r of None \<Rightarrow> True | Some a \<Rightarrow> a < next_free st \<and> distinct (map fst (cells st a)))"

text \<open>A dict with every value replaced by its string rendering.\<close>

definition stringified :: "dict \<Rightarrow> dict" where
  "stringified d = map (\<lambda>(k, v). (k, PStr (py_str v))) d"

text \<open>A built-in rule's base config and a profiler rule, for the examples.\<close>

definition example_base_config :: base_config where
  "example_base_config =
     \<lparr>DebugRuleConfiguration_key =
        Some \<lparr>RuleConfigurationName = Some ''VanishingGradient'',
              RuleParameters = Some [(''rule_to_invoke'', PStr ''VanishingGradient''),
                                     (''threshold'', PStr ''0.0000001'')]\<rparr>,
      CollectionConfigurations_key =
        Some [\<lparr>CollectionName = Some ''gradients'', CollectionParameters = None\<rparr>]\<rparr>"

definition example_profiler_rule :: ProfilerRule where
  "example_profiler_rule =
     \<lparr>name = Some ''ProfilerReport'', image_uri = ''DEFAULT_RULE_EVALUATOR_IMAGE'',
      instance_type = None, container_local_output_path = None, s3_output_path = None,
      volume_size_in_gb = None, rule_parameters = Some 0\<rparr>"

section \<open>Definitions for the statements\<close>

text \<open>
  The entries for the other trials as the spec words them: one entry per path, keyed
  \<open>other_trial_0\<close>, \<open>other_trial_1\<close>, ... in the order of the list
  (\<open>other_trial_items index\<close> starts the count at \<open>index\<close>).
\<close>

definition other_trial_items :: "nat \<Rightarrow> string list \<Rightarrow> dict" where
  "other_trial_items index paths =
     map (\<lambda>(i, p). (''other_trial_'' @ str_nat i, PStr p)) (enumerate index paths)"

definition other_trial_entries :: "string list option \<Rightarrow> dict" where
  "other_trial_entries paths = (case paths of None \<Rightarrow> [] | Some ps \<Rightarrow> other_trial_items 0 ps)"

text \<open>
  A base config whose default parameters, when it has some, hold no key twice, and the
  default parameters of a base config (none without the key).
\<close>

definition valid_base_config :: "base_config \<Rightarrow> bool" where
  "valid_base_config base =
     (case DebugRuleConfiguration_key base of
        None \<Rightarrow> True
      | Some c \<Rightarrow> (case RuleParameters c of None \<Rightarrow> True | Some p \<Rightarrow> distinct (map fst p)))"

definition default_rule_params :: "base_config \<Rightarrow> dict" where
  "default_rule_params base =
     (case DebugRuleConfiguration_key base of
        None \<Rightarrow> []
      | Some c \<Rightarrow> (case RuleParameters c of None \<Rightarrow> [] | Some p \<Rightarrow> p))"

text \<open>The rule and the store that \<open>Rule.sagemaker\<close> returns in the example below.\<close>

definition example_rule_after_sagemaker :: Rule where
  "example_rule_after_sagemaker =
     \<lparr>name = Some ''VanishingGradient'', image_uri = ''DEFAULT_RULE_EVALUATOR_IMAGE'',
      instance_type = None, container_local_output_path = None, s3_output_path = None,
      volume_size_in_gb = None, rule_parameters = Some 1,
      collection_configs = [\<lparr>collection_name = Some ''gradients'', parameters = Some []\<rparr>]\<rparr>"

definition example_store_after_sagemaker :: store where
  "example_store_after_sagemaker =
     \<lparr>cells = (\<lambda>_. [])
        (0 := [(''threshold'', PStr ''3'')],
         1 := [(''other_trial_0'', PStr ''p0''), (''other_trial_1'', PStr ''p1''),
               (''rule_to_invoke'', PStr ''VanishingGradient''), (''threshold'', PStr ''3'')]),
      next_free = 2\<rparr>"

text \<open>
  Two \<open>parameters\<close> attributes hold the same mapping: both are \<open>None\<close>, or both are
  dicts with the same entries, in whatever order they were inserted.
\<close>

definition same_mapping :: "dict option \<Rightarrow> dict option \<Rightarrow> bool" where
  "same_mapping a b =
     (case (a, b) of
        (None, None) \<Rightarrow> True
      | (Some x, Some y) \<Rightarrow> distinct (map fst x) \<and> distinct (map fst y) \<and> set x = set y
      | _ \<Rightarrow> False)"

section \<open>The JumpStart data holders\<close>

text \<open>
  The classes of \<open>jumpstart/types.py\<close>: the base class and its seven direct
  subclasses. There is no other subclass relation among them.
\<close>

datatype cls =
    JumpStartDataHolderType
  | JumpStartLaunchedRegionInfo
  | JumpStartModelHeader
  | JumpStartECRSpecs
  | JumpStartModelSpecs
  | JumpStartVersionedModelId
  | JumpStartCachedS3ContentKey
  | JumpStartCachedS3ContentValue

text \<open>
  The values an attribute or a JSON document can hold: \<open>None\<close>, booleans, integers,
  strings, lists, dicts with string keys (in insertion order), and instances of the
  classes above, which hold their attributes by name. Floats are left out, and so is a
  dict keyed by objects (the manifest content of a \<open>JumpStartCachedS3ContentValue\<close>).
  An attribute that was never assigned has no entry: reading it raises.
\<close>

datatype jval =
    JNone
  | JBool bool
  | JInt int
  | JStr string
  | JList "jval list"
  | JDict "(string \<times> jval) list"
  | JObj cls "(string \<times> jval) list"

text \<open>An instance as a receiver: its class and its attributes.\<close>

type_synonym obj = "cls \<times> (string \<times> jval) list"

definition as_val :: "obj \<Rightarrow> jval" where
  "as_val self = JObj (fst self) (snd self)"

text \<open>\<open>issubclass c d\<close>: every class derives from \<open>JumpStartDataHolderType\<close> only.\<close>

definition issubclass :: "cls \<Rightarrow> cls \<Rightarrow> bool" where
  "issubclass c d = (c = d \<or> d = JumpStartDataHolderType)"

text \<open>
  \<open>__slots__\<close> as each class declares it: a list, or for \<open>JumpStartECRSpecs\<close> a set.
  \<open>a != b\<close> on two declarations compares lists as lists and sets as sets; a list never
  equals a set. A loop over a set visits its elements in an order that Python does not
  fix; \<open>slot_names\<close> takes the order of the set display.
\<close>

datatype slots_decl = SlotsList "string list" | SlotsSet "string list"

fun slots :: "cls \<Rightarrow> slots_decl" where
  "slots JumpStartDataHolderType = SlotsList []"
| "slots JumpStartLaunchedRegionInfo = SlotsList [''content_bucket'', ''region_name'']"
| "slots JumpStartModelHeader = SlotsList [''model_id'', ''version'', ''min_version'', ''spec_key'']"
| "slots JumpStartECRSpecs = SlotsSet [''framework'', ''framework_version'', ''py_version'']"
| "slots JumpStartModelSpecs =
     SlotsList [''model_id'', ''version'', ''min_sdk_version'', ''incremental_training_supported'',
                ''hosting_ecr_specs'', ''hosting_artifact_key'', ''hosting_script_key'',
                ''training_supported'', ''training_ecr_specs'', ''training_artifact_key'',
                ''training_script_key'', ''hyperparameters'']"
| "slots JumpStartVersionedModelId = SlotsList [''model_id'', ''version'']"
| "slots JumpStartCachedS3ContentKey = SlotsList [''file_type'', ''s3_key'']"
| "slots JumpStartCachedS3ContentValue = SlotsList [''formatted_content'', ''md5_hash'']"

fun slots_ne :: "slots_decl \<Rightarrow> slots_decl \<Rightarrow> bool" where
  "slots_ne (SlotsList a) (SlotsList b) = (a \<noteq> b)"
| "slots_ne (SlotsSet a) (SlotsSet b) = (set a \<noteq> set b)"
| "slots_ne _ _ = True"

fun slot_names :: "slots_decl \<Rightarrow> string list" where
  "slot_names (SlotsList a) = a"
| "slot_names (SlotsSet a) = a"

text \<open>
  The loop \<open>for a in xs: if not equal(a): return False\<close> followed by
  \<open>return True\<close>, where the comparison can raise.
\<close>

fun all_eq :: "('a \<Rightarrow> error + bool) \<Rightarrow> 'a list \<Rightarrow> error + bool" where
  "all_eq f [] = Inr True"
| "all_eq f (x # xs) =
     (case f x of Inl e \<Rightarrow> Inl e | Inr b \<Rightarrow> if b then all_eq f xs else Inr False)"

lemma all_eq_cong [fundef_cong]:
  "xs = ys \<Longrightarrow> (\<And>x. x \<in> set ys \<Longrightarrow> f x = g x) \<Longrightarrow> all_eq f xs = all_eq g ys"
  by (induction ys arbitrary: xs) (auto split: sum.splits)

text \<open>The size of an attribute or an entry is below the size of its holder.\<close>

lemma size_map_of:
  "map_of attrs a = Some x \<Longrightarrow> size x < Suc (size_list (size_prod (\<lambda>_. 0) size) attrs)"
  by (induction attrs) (auto split: if_splits)

lemma size_in_set:
  "(k, v) \<in> set xs \<Longrightarrow> size v < Suc (size_list (size_prod (\<lambda>_. 0) size) xs)"
  by (induction xs) auto

lemma size_in_list:
  "x \<in> set xs \<Longrightarrow> size x < Suc (size_list size xs)"
  by (induction xs) auto

text \<open>
  \<open>a == b\<close>. The first equation is \<open>JumpStartDataHolderType.__eq__\<close>: the
  \<open>isinstance\<close> test, the comparison of the two \<open>__slots__\<close> (every class here has
  one, so \<open>getattr(other, "__slots__", None)\<close> is never \<open>None\<close>), and the loop over
  the receiver's slots with \<open>getattr(self, attribute) != getattr(other, attribute)\<close>;
  \<open>!=\<close> is the negation of \<open>==\<close> for every value here. Lists compare their
  lengths and then their elements in order; dicts compare their sizes and then, for every
  key of the left one, the two values; \<open>True == 1\<close> and \<open>False == 0\<close>. An object
  equals no value that is not an object, on either side. Where the right operand is an
  instance of a proper subclass of the left one's class, Python asks the right operand
  first; among these classes that is the base class against one of its subclasses, and
  both methods answer \<open>False\<close> there.
\<close>

function (sequential) py_eq :: "jval \<Rightarrow> jval \<Rightarrow> error + bool" where
  "py_eq (JObj c attrs) other =
     (case other of
        JObj c' attrs' \<Rightarrow>
          if \<not> issubclass c' c then Inr False
          else if slots_ne (slots c) (slots c') then Inr False
          else all_eq (\<lambda>attribute.
                  case map_of attrs attribute of
                    None \<Rightarrow> Inl AttributeError
                  | Some x \<Rightarrow>
                      (case map_of attrs' attribute of
                         None \<Rightarrow> Inl AttributeError
                       | Some y \<Rightarrow> py_eq x y))
                (slot_names (slots c))
      | _ \<Rightarrow> Inr False)"
| "py_eq (JList xs) other =
     (case other of
        JList ys \<Rightarrow>
          if length xs \<noteq> length ys then Inr False
          else all_eq (\<lambda>(x, y). py_eq x y) (zip xs ys)
      | _ \<Rightarrow> Inr False)"
| "py_eq (JDict xs) other =
     (case other of
        JDict ys \<Rightarrow>
          if length xs \<noteq> length ys then Inr False
          else all_eq (\<lambda>(k, v). case map_of ys k of None \<Rightarrow> Inr False | Some w \<Rightarrow> py_eq v w) xs
      | _ \<Rightarrow> Inr False)"
| "py_eq JNone other = Inr (other = JNone)"
| "py_eq (JBool a) other =
     (case other of
        JBool b \<Rightarrow> Inr (a = b)
      | JInt i \<Rightarrow> Inr (i = (if a then 1 else 0))
      | _ \<Rightarrow> Inr False)"
| "py_eq (JInt i) other =
     (case other of
        JInt j \<Rightarrow> Inr (i = j)
      | JBool b \<Rightarrow> Inr (i = (if b then 1 else 0))
      | _ \<Rightarrow> Inr False)"
| "py_eq (JStr s) other = Inr (other = JStr s)"
  by pat_completeness auto

termination
  by (relation "measure (\<lambda>(x, y). size x)")
     (auto dest: size_map_of size_in_set size_in_list set_zip_leftD)

text \<open>\<open>bool(v)\<close>; an instance of a data holder is always true.\<close>

fun py_truthy :: "jval \<Rightarrow> bool" where
  "py_truthy JNone = False"
| "py_truthy (JBool b) = b"
| "py_truthy (JInt i) = (i \<noteq> 0)"
| "py_truthy (JStr s) = (s \<noteq> [])"
| "py_truthy (JList xs) = (xs \<noteq> [])"
| "py_truthy (JDict d) = (d \<noteq> [])"
| "py_truthy (JObj c attrs) = True"

text \<open>
  \<open>json_obj[key]\<close> with a string key: \<open>KeyError\<close> for a dict without the key,
  \<open>TypeError\<close> for anything that is not a dict. \<open>json_obj.get(key)\<close> on a dict.
\<close>

fun getitem :: "jval \<Rightarrow> string \<Rightarrow> error + jval" where
  "getitem (JDict d) key = (case map_of d key of None \<Rightarrow> Inl KeyError | Some v \<Rightarrow> Inr v)"
| "getitem _ key = Inl TypeError"

fun get_or_none :: "jval \<Rightarrow> string \<Rightarrow> error + jval" where
  "get_or_none (JDict d) key = Inr (case map_of d key of None \<Rightarrow> JNone | Some v \<Rightarrow> v)"
| "get_or_none _ key = Inl AttributeError"

text \<open>
  \<open>getattr(self, attribute)\<close> and \<open>self.attribute = v\<close>; every name assigned below is a
  declared slot of its class.
\<close>

definition getattr :: "obj \<Rightarrow> string \<Rightarrow> error + jval" where
  "getattr self attribute =
     (case map_of (snd self) attribute of None \<Rightarrow> Inl AttributeError | Some v \<Rightarrow> Inr v)"

definition setattr :: "obj \<Rightarrow> string \<Rightarrow> jval \<Rightarrow> obj" where
  "setattr self attribute v = (fst self, AList.update attribute v (snd self))"

text \<open>Sequencing: an exception ends the computation.\<close>

definition on_success :: "error + 'a \<Rightarrow> ('a \<Rightarrow> error + 'b) \<Rightarrow> error + 'b" where
  "on_success r f = (case r of Inl e \<Rightarrow> Inl e | Inr x \<Rightarrow> f x)"

text \<open>\<open>JumpStartDataHolderType.__eq__(self, other)\<close>.\<close>

definition JumpStartDataHolderType_eq :: "obj \<Rightarrow> jval \<Rightarrow> error + bool" where
  "JumpStartDataHolderType_eq self other = py_eq (as_val self) other"

section \<open>\<open>from_json\<close> and \<open>to_json\<close>\<close>

text \<open>
  \<open>from_json\<close> assigns the attributes of its receiver one after the other; the model
  returns the receiver after the last assignment, or the exception. The constructor
  calls \<open>from_json\<close> on a new instance, which has no attribute yet.
\<close>

definition JumpStartModelHeader_from_json :: "obj \<Rightarrow> jval \<Rightarrow> error + obj" where
  "JumpStartModelHeader_from_json self json_obj =
     on_success (getitem json_obj ''model_id'') (\<lambda>v.
     let self = setattr self ''model_id'' v in
     on_success (getitem json_obj ''version'') (\<lambda>v.
     let self = setattr self ''version'' v in
     on_success (getitem json_obj ''min_version'') (\<lambda>v.
     let self = setattr self ''min_version'' v in
     on_success (getitem json_obj ''spec_key'') (\<lambda>v.
     let self = setattr self ''spec_key'' v in
     Inr self))))"

definition JumpStartModelHeader_init :: "jval \<Rightarrow> error + obj" where
  "JumpStartModelHeader_init header =
     JumpStartModelHeader_from_json (JumpStartModelHeader, []) header"

text \<open>\<open>{att: getattr(self, att) for att in self.__slots__}\<close>.\<close>

fun attrs_to_json :: "obj \<Rightarrow> string list \<Rightarrow> (string \<times> jval) list \<Rightarrow> error + jval" where
  "attrs_to_json self [] json_obj = Inr (JDict json_obj)"
| "attrs_to_json self (att # rest) json_obj =
     on_success (getattr self att) (\<lambda>v. attrs_to_json self rest (dict_setitem json_obj att v))"

definition JumpStartModelHeader_to_json :: "obj \<Rightarrow> error + jval" where
  "JumpStartModelHeader_to_json self = attrs_to_json self (slot_names (slots (fst self))) []"

definition JumpStartECRSpecs_from_json :: "obj \<Rightarrow> jval \<Rightarrow> error + obj" where
  "JumpStartECRSpecs_from_json self json_obj =
     on_success (getitem json_obj ''framework'') (\<lambda>v.
     let self = setattr self ''framework'' v in
     on_success (getitem json_obj ''framework_version'') (\<lambda>v.
     let self = setattr self ''framework_version'' v in
     on_success (getitem json_obj ''py_version'') (\<lambda>v.
     let self = setattr self ''py_version'' v in
     Inr self)))"

definition JumpStartECRSpecs_init :: "jval \<Rightarrow> error + obj" where
  "JumpStartECRSpecs_init spec = JumpStartECRSpecs_from_json (JumpStartECRSpecs, []) spec"

definition JumpStartECRSpecs_to_json :: "obj \<Rightarrow> error + jval" where
  "JumpStartECRSpecs_to_json self = attrs_to_json self (slot_names (slots (fst self))) []"

definition JumpStartModelSpecs_from_json :: "obj \<Rightarrow> jval \<Rightarrow> error + obj" where
  "JumpStartModelSpecs_from_json self json_obj =
     on_success (getitem json_obj ''model_id'') (\<lambda>v.
     let self = setattr self ''model_id'' v in
     on_success (getitem json_obj ''version'') (\<lambda>v.
     let self = setattr self ''version'' v in
     on_success (getitem json_obj ''min_sdk_version'') (\<lambda>v.
     let self = setattr self ''min_sdk_version'' v in
     on_success (getitem json_obj ''incremental_training_supported'') (\<lambda>v.
     let self = setattr self ''incremental_training_supported'' (JBool (py_truthy v)) in
     on_success (getitem json_obj ''hosting_ecr_specs'') (\<lambda>v.
     on_success (JumpStartECRSpecs_init v) (\<lambda>specs.
     let self = setattr self ''hosting_ecr_specs'' (as_val specs) in
     on_success (getitem json_obj ''hosting_artifact_key'') (\<lambda>v.
     let self = setattr self ''hosting_artifact_key'' v in
     on_success (getitem json_obj ''hosting_script_key'') (\<lambda>v.
     let self = setattr self ''hosting_script_key'' v in
     on_success (getitem json_obj ''training_supported'') (\<lambda>v.
     let self = setattr self ''training_supported'' (JBool (py_truthy v)) in
     if py_truthy v then
       on_success (getitem json_obj ''training_ecr_specs'') (\<lambda>v.
       on_success (JumpStartECRSpecs_init v) (\<lambda>specs.
       let self = setattr self ''training_ecr_specs'' (as_val specs) in
       on_success (getitem json_obj ''training_artifact_key'') (\<lambda>v.
       let self = setattr self ''training_artifact_key'' v in
       on_success (getitem json_obj ''training_script_key'') (\<lambda>v.
       let self = setattr self ''training_script_key'' v in
       on_success (get_or_none json_obj ''hyperparameters'') (\<lambda>v.
       let self = setattr self ''hyperparameters'' v in
       Inr self)))))
     else
       let self = setattr self ''training_ecr_specs'' JNone;
           self = setattr self ''training_artifact_key'' JNone;
           self = setattr self ''training_script_key'' JNone;
           self = setattr self ''hyperparameters'' JNone
       in Inr self)))))))))"

definition JumpStartModelSpecs_init :: "jval \<Rightarrow> error + obj" where
  "JumpStartModelSpecs_init spec = JumpStartModelSpecs_from_json (JumpStartModelSpecs, []) spec"

text \<open>
  \<open>JumpStartModelSpecs.to_json\<close>: the loop over the slots that serializes an attribute
  which is a \<open>JumpStartECRSpecs\<close> with that class's \<open>to_json\<close>. \<open>as_obj\<close> is applied
  to instances only.
\<close>

definition isinstance :: "jval \<Rightarrow> cls \<Rightarrow> bool" where
  "isinstance v c = (case v of JObj c' attrs \<Rightarrow> issubclass c' c | _ \<Rightarrow> False)"

definition as_obj :: "jval \<Rightarrow> obj" where
  "as_obj v = (case v of JObj c attrs \<Rightarrow> (c, attrs) | _ \<Rightarrow> (JumpStartDataHolderType, []))"

fun specs_to_json :: "obj \<Rightarrow> string list \<Rightarrow> (string \<times> jval) list \<Rightarrow> error + jval" where
  "specs_to_json self [] json_obj = Inr (JDict json_obj)"
| "specs_to_json self (att # rest) json_obj =
     on_success (getattr self att) (\<lambda>cur_val.
       if isinstance cur_val JumpStartECRSpecs then
         on_success (JumpStartECRSpecs_to_json (as_obj cur_val)) (\<lambda>v.
           specs_to_json self rest (dict_setitem json_obj att v))
       else specs_to_json self rest (dict_setitem json_obj att cur_val))"

definition JumpStartModelSpecs_to_json :: "obj \<Rightarrow> error + jval" where
  "JumpStartModelSpecs_to_json self = specs_to_json self (slot_names (slots (fst self))) []"

section \<open>JSON documents\<close>

text \<open>
  A value read from a JSON document: it holds no instance of a class, and no dict in it
  has a key twice. A valid instance of a data holder is one that its constructor builds
  from such a document.
\<close>

fun json_value :: "jval \<Rightarrow> bool" where
  "json_value (JList xs) = list_all json_value xs"
| "json_value (JDict d) = (distinct (map fst d) \<and> list_all (\<lambda>(k, v). json_value v) d)"
| "json_value (JObj c attrs) = False"
| "json_value _ = True"

text \<open>
  The attributes of a \<open>JumpStartModelSpecs\<close> and of a \<open>JumpStartECRSpecs\<close> in the
  order of assignment, and a value that is \<open>None\<close> or an ECR spec built from a JSON
  document.
\<close>

definition specs_attrs ::
  "jval \<Rightarrow> jval \<Rightarrow> jval \<Rightarrow> bool \<Rightarrow> jval \<Rightarrow> jval \<Rightarrow> jval \<Rightarrow> bool \<Rightarrow> jval \<Rightarrow> jval \<Rightarrow> jval \<Rightarrow> jval
     \<Rightarrow> (string \<times> jval) list" where
  "specs_attrs m v s i h ha hs t te ta tk hp =
     [(''model_id'', m), (''version'', v), (''min_sdk_version'', s),
      (''incremental_training_supported'', JBool i), (''hosting_ecr_specs'', h),
      (''hosting_artifact_key'', ha), (''hosting_script_key'', hs),
      (''training_supported'', JBool t), (''training_ecr_specs'', te),
      (''training_artifact_key'', ta), (''training_script_key'', tk),
      (''hyperparameters'', hp)]"

definition ecr_attrs :: "jval \<Rightarrow> jval \<Rightarrow> jval \<Rightarrow> (string \<times> jval) list" where
  "ecr_attrs v1 v2 v3 = [(''framework'', v1), (''framework_version'', v2), (''py_version'', v3)]"

definition ecr_or_none :: "jval \<Rightarrow> bool" where
  "ecr_or_none v =
     (v = JNone \<or>
      (\<exists>v1 v2 v3. json_value v1 \<and> json_value v2 \<and> json_value v3 \<and>
                  v = JObj JumpStartECRSpecs (ecr_attrs v1 v2 v3)))"

text \<open>JSON documents and the instances built from them, for the examples.\<close>

definition example_header :: jval where
  "example_header =
     JDict [(''model_id'', JStr ''pytorch-ic-mobilenet-v2''), (''version'', JStr ''1.0.0''),
            (''min_version'', JStr ''2.49.0''), (''spec_key'', JStr ''specs/v1.json'')]"

definition example_header_obj :: obj where
  "example_header_obj =
     (JumpStartModelHeader,
      [(''model_id'', JStr ''pytorch-ic-mobilenet-v2''), (''version'', JStr ''1.0.0''),
       (''min_version'', JStr ''2.49.0''), (''spec_key'', JStr ''specs/v1.json'')])"

definition example_ecr :: jval where
  "example_ecr =
     JDict [(''framework'', JStr ''pytorch''), (''framework_version'', JStr ''1.5.0''),
            (''py_version'', JStr ''py3'')]"

definition example_ecr_obj :: obj where
  "example_ecr_obj =
     (JumpStartECRSpecs,
      [(''framework'', JStr ''pytorch''), (''framework_version'', JStr ''1.5.0''),
       (''py_version'', JStr ''py3'')])"

definition example_spec :: "bool \<Rightarrow> jval" where
  "example_spec training =
     JDict [(''model_id'', JStr ''pytorch-ic-mobilenet-v2''), (''version'', JStr ''1.0.0''),
            (''min_sdk_version'', JStr ''2.49.0''),
            (''incremental_training_supported'', JBool True),
            (''hosting_ecr_specs'', example_ecr),
            (''hosting_artifact_key'', JStr ''infer.tar.gz''),
            (''hosting_script_key'', JStr ''inference.tar.gz''),
            (''training_supported'', JBool training),
            (''training_ecr_specs'', example_ecr),
            (''training_artifact_key'', JStr ''train.tar.gz''),
            (''training_script_key'', JStr ''transfer.tar.gz''),
            (''hyperparameters'', JDict [(''epochs'', JInt 3)])]"

definition example_spec_obj :: "bool \<Rightarrow> obj" where
  "example_spec_obj training =
     (JumpStartModelSpecs,
      [(''model_id'', JStr ''pytorch-ic-mobilenet-v2''), (''version'', JStr ''1.0.0''),
       (''min_sdk_version'', JStr ''2.49.0''),
       (''incremental_training_supported'', JBool True),
       (''hosting_ecr_specs'', as_val example_ecr_obj),
       (''hosting_artifact_key'', JStr ''infer.tar.gz''),
       (''hosting_script_key'', JStr ''inference.tar.gz''),
       (''training_supported'', JBool training),
       (''training_ecr_specs'', if training then as_val example_ecr_obj else JNone),
       (''training_artifact_key'', if training then JStr ''train.tar.gz'' else JNone),
       (''training_script_key'', if training then JStr ''transfer.tar.gz'' else JNone),
       (''hyperparameters'', if training then JDict [(''epochs'', JInt 3)] else JNone)])"

definition example_versioned_id :: obj where
  "example_versioned_id =
     (JumpStartVersionedModelId,
      [(''model_id'', JStr ''pytorch-ic-mobilenet-v2''), (''version'', JStr ''1.0.0'')])"

definition example_versioned_id_again :: obj where
  "example_versioned_id_again =
     (JumpStartVersionedModelId,
      [(''version'', JStr ''1.0.0''), (''model_id'', JStr ''pytorch-ic-mobilenet-v2'')])"

section \<open>Lemmas on dictionaries\<close>

lemma map_of_dict_setitem:
  "map_of (dict_setitem d k v) = (map_of d)(k \<mapsto> v)"
  by (rule ext) (simp add: dict_setitem_def update_conv)

lemma map_of_dict_update_rev:
  "map_of (dict_update d other) = map_of d ++ map_of (rev other)"
proof (induction other arbitrary: d)
  case Nil
  show ?case by (simp add: dict_update_def)
next
  case (Cons p ps)
  obtain k v where p: "p = (k, v)" by (cases p)
  have "map_of (dict_update d (p # ps)) = map_of (dict_update (dict_setitem d k v) ps)"
    by (simp add: dict_update_def p)
  also have "\<dots> = map_of (dict_setitem d k v) ++ map_of (rev ps)"
    by (rule Cons.IH)
  also have "\<dots> = map_of d ++ map_of (rev (p # ps))"
    by (rule ext) (auto simp: map_of_dict_setitem p map_add_def split: option.splits)
  finally show ?case .
qed

lemma map_of_rev_distinct:
  "distinct (map fst xs) \<Longrightarrow> map_of (rev xs) = map_of xs"
  by (rule map_of_inject_set [THEN iffD2]) (simp_all add: rev_map [symmetric])

lemma map_of_dict_update:
  "distinct (map fst other) \<Longrightarrow> map_of (dict_update d other) = map_of d ++ map_of other"
  by (simp add: map_of_dict_update_rev map_of_rev_distinct)

section \<open>The shared parameter-merge helper\<close>

lemma set_rule_parameters_cells:
  assumes "valid_ref st rule_params" and "py_bool source = py_bool rule_to_invoke"
  shows "\<exists>st'. RuleBase_set_rule_parameters source rule_to_invoke rule_params st
                 = Inr (next_free st, st') \<and>
               next_free st' = Suc (next_free st) \<and>
               (\<forall>b. b \<noteq> next_free st \<longrightarrow> cells st' b = cells st b) \<and>
               map_of (cells st' (next_free st)) =
                 map_of (build_dict ''source_s3_uri'' (map_option PStr source))
                 ++ map_of (build_dict ''rule_to_invoke'' (map_option PStr rule_to_invoke))
                 ++ map_of (or_empty rule_params st)"
proof (cases rule_params)
  case None
  with assms(2) show ?thesis
    by (simp add: RuleBase_set_rule_parameters_def new_dict_def store_update_def Let_def
        or_empty_def map_of_dict_update build_dict_def split: option.splits)
next
  case (Some a)
  with assms(1) have a: "a \<noteq> next_free st" "distinct (map fst (cells st a))"
    by (simp_all add: valid_ref_def)
  from assms(2) show ?thesis
    by (simp add: RuleBase_set_rule_parameters_def new_dict_def store_update_def Let_def
        or_empty_def Some a map_of_dict_update build_dict_def split: option.splits)
qed

text \<open>
  Claim C1, as the code has it. \<open>RuleBase._set_rule_parameters\<close> raises \<open>ValueError\<close>
  exactly when one of \<open>source\<close> and \<open>rule_to_invoke\<close> is a non-empty string and the
  other is \<open>None\<close> or the empty string (the test is \<open>bool(source) ^ bool(rule_to_invoke)\<close>).
  Otherwise it returns a new dict (one at an address not allocated before, every other
  dict of the store left as it was) in which every entry of \<open>rule_parameters\<close> is kept
  with its value, so that it overrides the two entries below, and which has no key
  other than those of \<open>rule_parameters\<close>, \<open>source_s3_uri\<close> and \<open>rule_to_invoke\<close>.
  Where \<open>rule_parameters\<close> does not set the key, \<open>source_s3_uri\<close> is mapped to the
  source when the source is a non-empty string and is missing when the source is
  \<open>None\<close>, and likewise \<open>rule_to_invoke\<close>. Nothing is stated about the entry of an
  argument that is the empty string: whether there is one is for \<open>build_dict\<close> of
  \<open>sagemaker.utils\<close> to decide, which is outside the modules verified here.
\<close>

theorem set_rule_parameters_merge:
  assumes "valid_ref st rule_params"
  shows "(RuleBase_set_rule_parameters source rule_to_invoke rule_params st = Inl ValueError
            \<longleftrightarrow> py_bool source \<noteq> py_bool rule_to_invoke) \<and>
         (py_bool source = py_bool rule_to_invoke \<longrightarrow>
            (\<exists>st'. RuleBase_set_rule_parameters source rule_to_invoke rule_params st
                     = Inr (next_free st, st') \<and>
                   next_free st' = Suc (next_free st) \<and>
                   (\<forall>b. b \<noteq> next_free st \<longrightarrow> cells st' b = cells st b) \<and>
                   (\<forall>k v. dict_get (or_empty rule_params st) k = Some v \<longrightarrow>
                          dict_get (cells st' (next_free st)) k = Some v) \<and>
                   (\<forall>k. dict_get (or_empty rule_params st) k = None \<and>
                        k \<noteq> ''source_s3_uri'' \<and> k \<noteq> ''rule_to_invoke'' \<longrightarrow>
                        dict_get (cells st' (next_free st)) k = None) \<and>
                   (dict_get (or_empty rule_params st) ''source_s3_uri'' = None \<longrightarrow>
                      (\<forall>s. source = Some s \<and> s \<noteq> [] \<longrightarrow>
                           dict_get (cells st' (next_free st)) ''source_s3_uri''
                             = Some (PStr s)) \<and>
                      (source = None \<longrightarrow>
                           dict_get (cells st' (next_free st)) ''source_s3_uri'' = None)) \<and>
                   (dict_get (or_empty rule_params st) ''rule_to_invoke'' = None \<longrightarrow>
                      (\<forall>r. rule_to_invoke = Some r \<and> r \<noteq> [] \<longrightarrow>
                           dict_get (cells st' (next_free st)) ''rule_to_invoke''
                             = Some (PStr r)) \<and>
                      (rule_to_invoke = None \<longrightarrow>
                           dict_get (cells st' (next_free st)) ''rule_to_invoke'' = None))))"
proof (intro conjI impI)
  show "RuleBase_set_rule_parameters source rule_to_invoke rule_params st = Inl ValueError
          \<longleftrightarrow> py_bool source \<noteq> py_bool rule_to_invoke"
    by (simp add: RuleBase_set_rule_parameters_def Let_def split: prod.splits)
next
  assume eq: "py_bool source = py_bool rule_to_invoke"
  let ?m = "next_free st"
  let ?p = "or_empty rule_params st"
  from set_rule_parameters_cells [OF assms eq] obtain st' where
    r: "RuleBase_set_rule_parameters source rule_to_invoke rule_params st = Inr (?m, st')"
    and n: "next_free st' = Suc ?m"
    and f: "\<forall>b. b \<noteq> ?m \<longrightarrow> cells st' b = cells st b"
    and m: "map_of (cells st' ?m) =
              map_of (build_dict ''source_s3_uri'' (map_option PStr source))
              ++ map_of (build_dict ''rule_to_invoke'' (map_option PStr rule_to_invoke))
              ++ map_of ?p"
    by blast
  have p1: "\<forall>k v. dict_get ?p k = Some v \<longrightarrow> dict_get (cells st' ?m) k = Some v"
    by (simp add: dict_get_def m)
  have p2: "\<forall>k. dict_get ?p k = None \<and> k \<noteq> ''source_s3_uri'' \<and> k \<noteq> ''rule_to_invoke'' \<longrightarrow>
                dict_get (cells st' ?m) k = None"
    by (auto simp: dict_get_def m map_add_def build_dict_def split: option.splits)
  have p3: "dict_get ?p ''source_s3_uri'' = None \<longrightarrow>
              (\<forall>s. source = Some s \<and> s \<noteq> [] \<longrightarrow>
                   dict_get (cells st' ?m) ''source_s3_uri'' = Some (PStr s)) \<and>
              (source = None \<longrightarrow> dict_get (cells st' ?m) ''source_s3_uri'' = None)"
    by (auto simp: dict_get_def m map_add_def build_dict_def split: option.splits)
  have p4: "dict_get ?p ''rule_to_invoke'' = None \<longrightarrow>
              (\<forall>r. rule_to_invoke = Some r \<and> r \<noteq> [] \<longrightarrow>
                   dict_get (cells st' ?m) ''rule_to_invoke'' = Some (PStr r)) \<and>
              (rule_to_invoke = None \<longrightarrow> dict_get (cells st' ?m) ''rule_to_invoke'' = None)"
    by (auto simp: dict_get_def m map_add_def build_dict_def split: option.splits)
  from r n f p1 p2 p3 p4
  show "\<exists>st'. RuleBase_set_rule_parameters source rule_to_invoke rule_params st
                 = Inr (next_free st, st') \<and>
               next_free st' = Suc (next_free st) \<and>
               (\<forall>b. b \<noteq> next_free st \<longrightarrow> cells st' b = cells st b) \<and>
               (\<forall>k v. dict_get (or_empty rule_params st) k = Some v \<longrightarrow>
                      dict_get (cells st' (next_free st)) k = Some v) \<and>
               (\<forall>k. dict_get (or_empty rule_params st) k = None \<and>
                    k \<noteq> ''source_s3_uri'' \<and> k \<noteq> ''rule_to_invoke'' \<longrightarrow>
                    dict_get (cells st' (next_free st)) k = None) \<and>
               (dict_get (or_empty rule_params st) ''source_s3_uri'' = None \<longrightarrow>
                  (\<forall>s. source = Some s \<and> s \<noteq> [] \<longrightarrow>
                       dict_get (cells st' (next_free st)) ''source_s3_uri''
                         = Some (PStr s)) \<and>
                  (source = None \<longrightarrow>
                       dict_get (cells st' (next_free st)) ''source_s3_uri'' = None)) \<and>
               (dict_get (or_empty rule_params st) ''rule_to_invoke'' = None \<longrightarrow>
                  (\<forall>r. rule_to_invoke = Some r \<and> r \<noteq> [] \<longrightarrow>
                       dict_get (cells st' (next_free st)) ''rule_to_invoke''
                         = Some (PStr r)) \<and>
                  (rule_to_invoke = None \<longrightarrow>
                       dict_get (cells st' (next_free st)) ''rule_to_invoke'' = None))"
    by (intro exI [of _ st'] conjI)
qed

theorem set_rule_parameters_merge_witness:
  "valid_ref (store_with [(''threshold'', PInt 5)]) (Some 0) \<and>
   py_bool (Some ''s3://b/rule.py'') = py_bool (Some ''CustomRule'') \<and>
   dict_get (or_empty (Some 0) (store_with [(''threshold'', PInt 5)])) ''threshold''
     = Some (PInt 5) \<and>
   dict_get (or_empty (Some 0) (store_with [(''threshold'', PInt 5)])) ''source_s3_uri'' = None \<and>
   dict_get (or_empty (Some 0) (store_with [(''threshold'', PInt 5)])) ''rule_to_invoke'' = None \<and>
   (\<exists>st'. RuleBase_set_rule_parameters (Some ''s3://b/rule.py'') (Some ''CustomRule'') (Some 0)
            (store_with [(''threshold'', PInt 5)]) = Inr (1, st') \<and>
          dict_get (cells st' 1) ''threshold'' = Some (PInt 5) \<and>
          dict_get (cells st' 1) ''source_s3_uri'' = Some (PStr ''s3://b/rule.py'') \<and>
          dict_get (cells st' 1) ''rule_to_invoke'' = Some (PStr ''CustomRule'') \<and>
          dict_get (cells st' 1) ''other'' = None \<and>
          cells st' 1 = [(''source_s3_uri'', PStr ''s3://b/rule.py''),
                         (''rule_to_invoke'', PStr ''CustomRule''), (''threshold'', PInt 5)])"
proof -
  let ?st = "store_with [(''threshold'', PInt 5)]"
  let ?p = "or_empty (Some 0) ?st"
  have v: "valid_ref ?st (Some 0)"
    by (simp add: valid_ref_def store_with_def)
  have b: "py_bool (Some ''s3://b/rule.py'') = py_bool (Some ''CustomRule'')"
    by (simp add: py_bool_def)
  have n: "next_free ?st = 1"
    by (simp add: store_with_def)
  have p: "dict_get ?p ''threshold'' = Some (PInt 5)"
    "dict_get ?p ''source_s3_uri'' = None"
    "dict_get ?p ''rule_to_invoke'' = None"
    "dict_get ?p ''other'' = None"
    by (simp_all add: or_empty_def store_with_def dict_get_def)
  from set_rule_parameters_merge [OF v, of "Some ''s3://b/rule.py''" "Some ''CustomRule''",
      THEN conjunct2, THEN mp, OF b]
  obtain st' where
    r: "RuleBase_set_rule_parameters (Some ''s3://b/rule.py'') (Some ''CustomRule'') (Some 0) ?st
          = Inr (next_free ?st, st')"
    and p1: "\<forall>k v. dict_get ?p k = Some v \<longrightarrow> dict_get (cells st' (next_free ?st)) k = Some v"
    and p2: "\<forall>k. dict_get ?p k = None \<and> k \<noteq> ''source_s3_uri'' \<and> k \<noteq> ''rule_to_invoke'' \<longrightarrow>
                dict_get (cells st' (next_free ?st)) k = None"
    and p3: "dict_get ?p ''source_s3_uri'' = None \<longrightarrow>
              (\<forall>s. Some ''s3://b/rule.py'' = Some s \<and> s \<noteq> [] \<longrightarrow>
                   dict_get (cells st' (next_free ?st)) ''source_s3_uri'' = Some (PStr s)) \<and>
              (Some ''s3://b/rule.py'' = None \<longrightarrow>
                   dict_get (cells st' (next_free ?st)) ''source_s3_uri'' = None)"
    and p4: "dict_get ?p ''rule_to_invoke'' = None \<longrightarrow>
              (\<forall>r. Some ''CustomRule'' = Some r \<and> r \<noteq> [] \<longrightarrow>
                   dict_get (cells st' (next_free ?st)) ''rule_to_invoke'' = Some (PStr r)) \<and>
              (Some ''CustomRule'' = None \<longrightarrow>
                   dict_get (cells st' (next_free ?st)) ''rule_to_invoke'' = None)"
    by (elim exE conjE) (rule that)
  from p1 p(1) have t: "dict_get (cells st' 1) ''threshold'' = Some (PInt 5)"
    unfolding n by blast
  from p2 p(4) have o: "dict_get (cells st' 1) ''other'' = None"
    unfolding n by simp
  from p3 p(2) have s: "dict_get (cells st' 1) ''source_s3_uri'' = Some (PStr ''s3://b/rule.py'')"
    unfolding n by simp
  from p4 p(3) have i: "dict_get (cells st' 1) ''rule_to_invoke'' = Some (PStr ''CustomRule'')"
    unfolding n by simp
  from r have c: "cells st' 1 = [(''source_s3_uri'', PStr ''s3://b/rule.py''),
                     (''rule_to_invoke'', PStr ''CustomRule''), (''threshold'', PInt 5)]"
    by (auto simp: RuleBase_set_rule_parameters_def new_dict_def store_update_def Let_def
        store_with_def py_bool_def build_dict_def dict_update_def dict_setitem_def or_empty_def)
  from r have r': "RuleBase_set_rule_parameters (Some ''s3://b/rule.py'') (Some ''CustomRule'')
      (Some 0) ?st = Inr (1, st')"
    unfolding n .
  from r' t s i o c have "\<exists>st'. RuleBase_set_rule_parameters (Some ''s3://b/rule.py'')
            (Some ''CustomRule'') (Some 0) ?st = Inr (1, st') \<and>
          dict_get (cells st' 1) ''threshold'' = Some (PInt 5) \<and>
          dict_get (cells st' 1) ''source_s3_uri'' = Some (PStr ''s3://b/rule.py'') \<and>
          dict_get (cells st' 1) ''rule_to_invoke'' = Some (PStr ''CustomRule'') \<and>
          dict_get (cells st' 1) ''other'' = None \<and>
          cells st' 1 = [(''source_s3_uri'', PStr ''s3://b/rule.py''),
                         (''rule_to_invoke'', PStr ''CustomRule''), (''threshold'', PInt 5)]"
    by (intro exI [of _ st'] conjI)
  with v b p(1,2,3) show ?thesis
    by (intro conjI)
qed

text \<open>
  As the claim states it, with "present" read as "not \<open>None\<close>", it fails: an empty
  source with a rule to invoke has both present, and the call raises.
\<close>

theorem set_rule_parameters_present_counterexample:
  "RuleBase_set_rule_parameters (Some '''') (Some ''CustomRule'') None empty_store
     = Inl ValueError
   \<and> Some '''' \<noteq> (None :: string option) \<and> Some ''CustomRule'' \<noteq> (None :: string option)"
  by (simp add: RuleBase_set_rule_parameters_def py_bool_def)

section \<open>The check of \<open>Rule.sagemaker\<close> on \<open>rule_to_invoke\<close>\<close>

text \<open>
  Claim C3, as the code has it. \<open>Rule.sagemaker\<close> raises \<open>RuntimeError\<close> exactly when
  the caller's \<open>rule_parameters\<close> is a dict that maps \<open>rule_to_invoke\<close> to a value
  other than \<open>None\<close>; the check is the only place that raises this error, and it comes
  before anything else can fail.
\<close>

theorem sagemaker_rule_to_invoke_conflict:
  assumes "valid_ref st rule_params"
  shows "Rule_sagemaker base name_arg local_path_arg s3_path_arg other_trials rule_params
             collections_to_save st = Inl RuntimeError
         \<longleftrightarrow> (\<exists>a v. rule_params = Some a \<and> dict_get (cells st a) ''rule_to_invoke'' = Some v
                     \<and> v \<noteq> PNone)"
proof (cases rule_params)
  case None
  then show ?thesis
    by (simp add: Rule_sagemaker_def new_dict_def Let_def rule_to_invoke_given_def
        split: option.splits)
next
  case (Some a)
  with assms have a: "a \<noteq> next_free st"
    by (simp add: valid_ref_def)
  show ?thesis
    by (simp add: Rule_sagemaker_def new_dict_def Let_def rule_to_invoke_given_def Some a
        split: option.splits)
qed

theorem sagemaker_rule_to_invoke_conflict_witness:
  "valid_ref (store_with [(''rule_to_invoke'', PStr ''x'')]) (Some 0) \<and>
   Rule_sagemaker example_base_config None None None None (Some 0) None
     (store_with [(''rule_to_invoke'', PStr ''x'')]) = Inl RuntimeError"
proof -
  have v: "valid_ref (store_with [(''rule_to_invoke'', PStr ''x'')]) (Some 0)"
    by (simp add: valid_ref_def store_with_def)
  have "dict_get (cells (store_with [(''rule_to_invoke'', PStr ''x'')]) 0) ''rule_to_invoke''
          = Some (PStr ''x'')"
    by (simp add: store_with_def dict_get_def)
  with sagemaker_rule_to_invoke_conflict [OF v, of example_base_config None None None None None]
  show ?thesis using v by simp
qed

text \<open>
  As the claim states it, it fails: a dict that holds the key \<open>rule_to_invoke\<close> with
  the value \<open>None\<close> contains the key, and the call returns a rule.
\<close>

theorem sagemaker_rule_to_invoke_key_counterexample:
  "dict_get (cells (store_with [(''rule_to_invoke'', PNone)]) 0) ''rule_to_invoke'' = Some PNone \<and>
   map_sum id (\<lambda>(rule, st'). (rule_parameters rule, cells st' 1))
     (Rule_sagemaker example_base_config None None None None (Some 0) None
        (store_with [(''rule_to_invoke'', PNone)]))
   = Inr (Some 1, [(''rule_to_invoke'', PNone), (''threshold'', PStr ''0.0000001'')])"
  by (simp add: Rule_sagemaker_def new_dict_def Let_def rule_to_invoke_given_def store_with_def
      dict_get_def example_base_config_def store_update_def or_empty_def dict_update_def
      dict_setitem_def)

section \<open>The keys of the hook and TensorBoard requests\<close>

text \<open>
  Claim C5, as the code has it. In the dict that \<open>_to_request_dict\<close> returns for a
  \<open>DebuggerHookConfig\<close> or a \<open>TensorBoardOutputConfig\<close>, the key \<open>S3OutputPath\<close> is
  always there and carries the attribute's value, \<open>None\<close> included; each of
  \<open>LocalPath\<close>, \<open>HookParameters\<close> and \<open>CollectionConfigurations\<close> is there exactly
  when its attribute is not \<open>None\<close>, with the attribute's value; there is no other key.
\<close>

theorem request_dict_keys:
  "dict_get (DebuggerHookConfig_to_request_dict h) ''S3OutputPath''
     = Some (RVal (opt_str (hook_s3_output_path h))) \<and>
   dict_get (DebuggerHookConfig_to_request_dict h) ''LocalPath''
     = map_option (RVal \<circ> PStr) (hook_container_local_output_path h) \<and>
   dict_get (DebuggerHookConfig_to_request_dict h) ''HookParameters''
     = map_option RDict (hook_parameters h) \<and>
   dict_get (DebuggerHookConfig_to_request_dict h) ''CollectionConfigurations''
     = map_option (\<lambda>cs. RList (map CollectionConfig_to_request_dict cs)) (hook_collection_configs h) \<and>
   fst ` set (DebuggerHookConfig_to_request_dict h)
     \<subseteq> {''S3OutputPath'', ''LocalPath'', ''HookParameters'', ''CollectionConfigurations''} \<and>
   dict_get (TensorBoardOutputConfig_to_request_dict t) ''S3OutputPath''
     = Some (RVal (opt_str (tb_s3_output_path t))) \<and>
   dict_get (TensorBoardOutputConfig_to_request_dict t) ''LocalPath''
     = map_option (RVal \<circ> PStr) (tb_container_local_output_path t) \<and>
   fst ` set (TensorBoardOutputConfig_to_request_dict t) \<subseteq> {''S3OutputPath'', ''LocalPath''}"
  by (simp add: DebuggerHookConfig_to_request_dict_def TensorBoardOutputConfig_to_request_dict_def
      dict_get_def dict_setitem_def Let_def split: option.splits)

text \<open>
  As the claim states it, it fails for \<open>S3OutputPath\<close>: with the attribute absent the
  key is there, with a null value.
\<close>

theorem request_dict_s3_output_path_counterexample:
  "DebuggerHookConfig_to_request_dict
     \<lparr>hook_s3_output_path = None, hook_container_local_output_path = None,
      hook_parameters = None, hook_collection_configs = None\<rparr>
   = [(''S3OutputPath'', RVal PNone)] \<and>
   TensorBoardOutputConfig_to_request_dict
     \<lparr>tb_s3_output_path = None, tb_container_local_output_path = None\<rparr>
   = [(''S3OutputPath'', RVal PNone)]"
  by (simp add: DebuggerHookConfig_to_request_dict_def TensorBoardOutputConfig_to_request_dict_def
      opt_str_def)

section \<open>The rule serializers\<close>

lemma dict_setitem_append:
  "k \<notin> fst ` set xs \<Longrightarrow> dict_setitem (xs @ ys) k v = xs @ dict_setitem ys k v"
  by (induction xs) (auto simp: dict_setitem_def)

lemma fst_set_stringified: "fst ` set (stringified d) = fst ` set d"
  by (simp add: stringified_def image_image case_prod_beta)

lemma stringify_fold:
  "distinct (map fst (xs @ ys)) \<Longrightarrow>
   fold (\<lambda>(k, v) d. dict_setitem d k (PStr (py_str v))) ys (stringified xs @ ys)
     = stringified xs @ stringified ys"
proof (induction ys arbitrary: xs)
  case Nil
  show ?case by (simp add: stringified_def)
next
  case (Cons p ys)
  obtain k v where p: "p = (k, v)" by (cases p)
  from Cons.prems have k: "k \<notin> fst ` set (stringified xs)"
    by (auto simp: p fst_set_stringified)
  from Cons.prems have d: "distinct (map fst ((xs @ [p]) @ ys))" by simp
  have "fold (\<lambda>(k, v) d. dict_setitem d k (PStr (py_str v))) (p # ys) (stringified xs @ p # ys)
        = fold (\<lambda>(k, v) d. dict_setitem d k (PStr (py_str v))) ys
            (stringified (xs @ [p]) @ ys)"
    by (simp add: p dict_setitem_append [OF k]) (simp add: dict_setitem_def stringified_def)
  also have "\<dots> = stringified (xs @ [p]) @ stringified ys"
    by (rule Cons.IH [OF d])
  finally show ?case by (simp add: stringified_def)
qed

lemma stringify_loop_fold:
  "dict_get request ''RuleParameters'' = Some (RRef a) \<Longrightarrow>
   stringify_loop request items st
     = st\<lparr>cells := (cells st)(a := fold (\<lambda>(k, v) d. dict_setitem d k (PStr (py_str v))) items
                                       (cells st a))\<rparr>"
  by (induction items arbitrary: st) (auto simp: store_setitem_def)

lemma stringify_loop_cells:
  assumes "dict_get request ''RuleParameters'' = Some (RRef a)"
    and "distinct (map fst (cells st a))"
  shows "stringify_loop request (cells st a) st = st\<lparr>cells := (cells st)(a := stringified (cells st a))\<rparr>"
  using stringify_fold [of "[]" "cells st a"] assms(2)
  by (simp add: stringify_loop_fold [OF assms(1)] stringified_def)

text \<open>
  Claim C4. For a \<open>ProfilerRule\<close> whose \<open>rule_parameters\<close> is a non-empty dict,
  \<open>to_profiler_rule_config_dict\<close> returns under \<open>RuleParameters\<close> a dict in which
  every value is \<open>str\<close> of the value stored before the call, keys and order kept.
  For a \<open>Rule\<close>, \<open>to_debugger_rule_config_dict\<close> returns under \<open>RuleParameters\<close> the
  stored dict itself; it has no access to the store, so no value is coerced.
\<close>

theorem rule_parameters_serialized:
  "(rule_parameters p = Some a \<and> cells st a \<noteq> [] \<and> distinct (map fst (cells st a)) \<longrightarrow>
      (\<exists>request st'. to_profiler_rule_config_dict p st = (request, st') \<and>
         dict_get request ''RuleParameters'' = Some (RRef a) \<and>
         cells st' a = map (\<lambda>(k, v). (k, PStr (py_str v))) (cells st a))) \<and>
   (rule_parameters r = Some b \<longrightarrow>
      dict_get (to_debugger_rule_config_dict r) ''RuleParameters'' = Some (RRef b))"
proof (intro conjI impI)
  assume h: "rule_parameters p = Some a \<and> cells st a \<noteq> [] \<and> distinct (map fst (cells st a))"
  let ?req = "dict_setitem (rule_config_request p) ''RuleParameters'' (RRef a)"
  have g: "dict_get ?req ''RuleParameters'' = Some (RRef a)"
    by (simp add: dict_get_def map_of_dict_setitem)
  from h have "to_profiler_rule_config_dict p st = (?req, stringify_loop ?req (cells st a) st)"
    by (simp add: to_profiler_rule_config_dict_def Let_def)
  with g h show "\<exists>request st'. to_profiler_rule_config_dict p st = (request, st') \<and>
         dict_get request ''RuleParameters'' = Some (RRef a) \<and>
         cells st' a = map (\<lambda>(k, v). (k, PStr (py_str v))) (cells st a)"
    by (simp add: stringify_loop_cells stringified_def)
next
  assume "rule_parameters r = Some b"
  then show "dict_get (to_debugger_rule_config_dict r) ''RuleParameters'' = Some (RRef b)"
    by (simp add: to_debugger_rule_config_dict_def dict_get_def map_of_dict_update build_dict_def)
qed


theorem rule_parameters_serialized_witness:
  "(rule_parameters example_profiler_rule = Some 0 \<and>
    cells (store_with [(''k'', PInt 5), (''on'', PBool True)]) 0 \<noteq> [] \<and>
    distinct (map fst (cells (store_with [(''k'', PInt 5), (''on'', PBool True)]) 0))) \<and>
   (\<exists>request st'.
      to_profiler_rule_config_dict example_profiler_rule
        (store_with [(''k'', PInt 5), (''on'', PBool True)]) = (request, st') \<and>
      dict_get request ''RuleParameters'' = Some (RRef 0) \<and>
      cells st' 0 = [(''k'', PStr ''5''), (''on'', PStr ''True'')]) \<and>
   rule_parameters (RuleBase.extend example_profiler_rule (Rule.fields [])) = Some 0 \<and>
   dict_get (to_debugger_rule_config_dict
               (RuleBase.extend example_profiler_rule (Rule.fields []))) ''RuleParameters''
     = Some (RRef 0)"
proof -
  let ?st = "store_with [(''k'', PInt 5), (''on'', PBool True)]"
  let ?r = "RuleBase.extend example_profiler_rule (Rule.fields [])"
  have h: "rule_parameters example_profiler_rule = Some 0 \<and> cells ?st 0 \<noteq> [] \<and>
           distinct (map fst (cells ?st 0))"
    by (simp add: example_profiler_rule_def store_with_def)
  have r: "rule_parameters ?r = Some 0"
    by (simp add: example_profiler_rule_def RuleBase.defs Rule.defs)
  have s: "map (\<lambda>(k, v). (k, PStr (py_str v))) (cells ?st 0)
             = [(''k'', PStr ''5''), (''on'', PStr ''True'')]"
    by (simp add: store_with_def str_int_def str_nat.simps digit_char_def)
  from rule_parameters_serialized [of example_profiler_rule 0 ?st ?r 0] h r s
  show ?thesis by simp
qed

text \<open>
  Claim C6 at a failing input. \<open>to_profiler_rule_config_dict\<close> puts the receiver's own
  dict into the request and assigns the strings into it, so a \<open>ProfilerRule\<close> with
  \<open>rule_parameters = {"k": 5}\<close> has \<open>rule_parameters = {"k": "5"}\<close> after the call:
  the store that comes back differs from the one that went in.
\<close>

theorem profiler_serializer_mutates_receiver:
  "to_profiler_rule_config_dict example_profiler_rule (store_with [(''k'', PInt 5)])
   = ([(''RuleConfigurationName'', RVal (PStr ''ProfilerReport'')),
       (''RuleEvaluatorImage'', RVal (PStr ''DEFAULT_RULE_EVALUATOR_IMAGE'')),
       (''RuleParameters'', RRef 0)],
      store_with [(''k'', PStr ''5'')])"
  by (simp add: to_profiler_rule_config_dict_def example_profiler_rule_def store_with_def
      rule_config_request_def Let_def build_dict_def dict_update_def dict_setitem_def dict_get_def
      store_setitem_def opt_str_def str_int_def str_nat.simps digit_char_def)

section \<open>The merge order of \<open>Rule.sagemaker\<close>\<close>

text \<open>The decimal rendering is injective, so the keys of the other trials differ.\<close>

lemma digit_char_inj:
  "d < 10 \<Longrightarrow> e < 10 \<Longrightarrow> digit_char d = digit_char e \<Longrightarrow> d = e"
  by (simp add: digit_char_def numeral_nat less_Suc_eq; elim disjE; simp)

lemma str_nat_not_Nil: "str_nat n \<noteq> []"
  by (subst str_nat.simps) simp

lemma str_nat_inj: "str_nat n = str_nat m \<Longrightarrow> n = m"
proof (induction n arbitrary: m rule: str_nat.induct)
  case (1 n)
  show ?case
  proof (cases "n < 10")
    case True
    show ?thesis
    proof (cases "m < 10")
      case m: True
      from "1.prems" True m have "digit_char n = digit_char m"
        by (simp add: str_nat.simps)
      with True m show ?thesis by (rule digit_char_inj)
    next
      case m: False
      from "1.prems" True m have "[digit_char n] = str_nat (m div 10) @ [digit_char (m mod 10)]"
        by (simp add: str_nat.simps [of n] str_nat.simps [of m])
      then show ?thesis using str_nat_not_Nil [of "m div 10"] by simp
    qed
  next
    case False
    show ?thesis
    proof (cases "m < 10")
      case m: True
      from "1.prems" False m have "str_nat (n div 10) @ [digit_char (n mod 10)] = [digit_char m]"
        by (simp add: str_nat.simps [of n] str_nat.simps [of m])
      then show ?thesis using str_nat_not_Nil [of "n div 10"] by simp
    next
      case m: False
      from "1.prems" False m
      have "str_nat (n div 10) @ [digit_char (n mod 10)] = str_nat (m div 10) @ [digit_char (m mod 10)]"
        by (simp add: str_nat.simps [of n] str_nat.simps [of m])
      then have a: "str_nat (n div 10) = str_nat (m div 10)"
        and b: "digit_char (n mod 10) = digit_char (m mod 10)"
        by simp_all
      from "1.IH" [OF False a] have "n div 10 = m div 10" .
      moreover from b have "n mod 10 = m mod 10"
        by (rule digit_char_inj [rotated 2]) simp_all
      ultimately show ?thesis by (metis div_mult_mod_eq)
    qed
  qed
qed

lemma other_trial_items_Cons:
  "other_trial_items i (p # ps) = (''other_trial_'' @ str_nat i, PStr p) # other_trial_items (Suc i) ps"
  by (simp add: other_trial_items_def)

lemma other_trial_items_keys:
  "map fst (other_trial_items i ps) = map (\<lambda>j. ''other_trial_'' @ str_nat j) [i..<i + length ps]"
proof (induction ps arbitrary: i)
  case Nil
  show ?case by (simp add: other_trial_items_def)
next
  case (Cons p ps)
  show ?case
    by (simp add: other_trial_items_Cons Cons.IH upt_conv_Cons del: upt_Suc)
qed

lemma other_trial_items_distinct: "distinct (map fst (other_trial_items i ps))"
  by (simp add: other_trial_items_keys distinct_map inj_on_def str_nat_inj)

lemma other_trial_items_nth:
  "j < length ps \<Longrightarrow>
   map_of (other_trial_items i ps) (''other_trial_'' @ str_nat (i + j)) = Some (PStr (ps ! j))"
  by (rule map_of_is_SomeI [OF other_trial_items_distinct])
     (auto simp: other_trial_items_def in_set_enumerate_eq image_iff intro!: bexI [of _ "(i + j, ps ! j)"])

lemma other_trials_loop_next_free [simp]:
  "next_free (other_trials_loop m i ps st) = next_free st"
  by (induction ps arbitrary: i st) (simp_all add: store_setitem_def)

lemma other_trials_loop_cells:
  "cells (other_trials_loop m i ps st)
     = (cells st)(m := dict_update (cells st m) (other_trial_items i ps))"
proof (induction ps arbitrary: i st)
  case Nil
  show ?case by (simp add: other_trial_items_def dict_update_def)
next
  case (Cons p ps)
  show ?case
    by (rule ext) (simp add: Cons.IH other_trial_items_Cons store_setitem_def dict_update_def)
qed

text \<open>
  Claim C2. When \<open>Rule.sagemaker\<close> succeeds, the rule's \<open>rule_parameters\<close> is a new
  dict that holds, in increasing precedence, one entry per element of
  \<open>other_trials_s3_input_paths\<close> (the key \<open>other_trial_i\<close> for the \<open>i\<close>-th path), the
  \<open>RuleParameters\<close> of the base config's \<open>DebugRuleConfiguration\<close>, and the caller's
  \<open>rule_parameters\<close>.
\<close>

theorem sagemaker_merge_order:
  assumes "valid_ref st rule_params" and "valid_base_config base"
    and "Rule_sagemaker base name_arg local_path_arg s3_path_arg other_trials rule_params
           collections_to_save st = Inr (rule, st')"
  shows "rule_parameters rule = Some (next_free st) \<and>
         map_of (cells st' (next_free st))
           = map_of (other_trial_entries other_trials)
             ++ map_of (default_rule_params base)
             ++ map_of (or_empty rule_params st) \<and>
         (\<forall>paths i. other_trials = Some paths \<and> i < length paths \<longrightarrow>
            dict_get (other_trial_entries other_trials) (''other_trial_'' @ str_nat i)
              = Some (PStr (paths ! i)))"
proof -
  let ?m = "next_free st"
  obtain c where c: "DebugRuleConfiguration_key base = Some c"
    using assms(3) by (auto simp: Rule_sagemaker_def new_dict_def Let_def split: if_splits option.splits)
  have d1: "distinct (map fst (default_rule_params base))"
    using assms(2) by (simp add: valid_base_config_def default_rule_params_def c split: option.splits)
  have d2: "distinct (map fst (or_empty rule_params st))"
    using assms(1) by (auto simp: valid_ref_def or_empty_def split: option.splits)
  have d3: "distinct (map fst (other_trial_entries other_trials))"
    by (simp add: other_trial_entries_def other_trial_items_distinct split: option.splits)
  have fr: "\<And>a. rule_params = Some a \<Longrightarrow> a \<noteq> ?m"
    using assms(1) by (auto simp: valid_ref_def)
  have dr: "(case RuleParameters c of None \<Rightarrow> [] | Some p \<Rightarrow> p) = default_rule_params base"
    by (simp add: default_rule_params_def c)
  from assms(3) have r: "rule_parameters rule = Some ?m"
    and s: "cells st' ?m = dict_update (dict_update (dict_update [] (other_trial_entries other_trials))
                (default_rule_params base)) (or_empty rule_params st)"
    using fr
    by (auto simp: Rule_sagemaker_def new_dict_def Let_def c dr store_update_def or_empty_def
        other_trials_loop_cells other_trial_entries_def dict_update_def
        split: if_splits option.splits)
  have "map_of (cells st' ?m) = map_of (other_trial_entries other_trials)
             ++ map_of (default_rule_params base) ++ map_of (or_empty rule_params st)"
    by (simp add: s map_of_dict_update d1 d2 d3)
  moreover have "\<forall>paths i. other_trials = Some paths \<and> i < length paths \<longrightarrow>
      dict_get (other_trial_entries other_trials) (''other_trial_'' @ str_nat i)
        = Some (PStr (paths ! i))"
    using other_trial_items_nth [of _ _ 0]
    by (auto simp: other_trial_entries_def dict_get_def)
  ultimately show ?thesis using r by blast
qed

lemma example_sagemaker_run:
  "Rule_sagemaker example_base_config None None None (Some [''p0'', ''p1'']) (Some 0) None
     (store_with [(''threshold'', PStr ''3'')])
   = Inr (example_rule_after_sagemaker, example_store_after_sagemaker)"
  by (simp add: Rule_sagemaker_def new_dict_def Let_def rule_to_invoke_given_def store_with_def
      dict_get_def example_base_config_def store_update_def or_empty_def dict_update_def
      dict_setitem_def store_setitem_def str_nat.simps digit_char_def py_bool_def
      base_config_collections_def example_rule_after_sagemaker_def
      example_store_after_sagemaker_def fun_upd_twist)

theorem sagemaker_merge_order_witness:
  "valid_ref (store_with [(''threshold'', PStr ''3'')]) (Some 0) \<and>
   valid_base_config example_base_config \<and>
   Rule_sagemaker example_base_config None None None (Some [''p0'', ''p1'']) (Some 0) None
     (store_with [(''threshold'', PStr ''3'')])
     = Inr (example_rule_after_sagemaker, example_store_after_sagemaker) \<and>
   rule_parameters example_rule_after_sagemaker = Some 1 \<and>
   map_of (cells example_store_after_sagemaker 1)
     = map_of (other_trial_entries (Some [''p0'', ''p1'']))
       ++ map_of (default_rule_params example_base_config)
       ++ map_of [(''threshold'', PStr ''3'')] \<and>
   dict_get (other_trial_entries (Some [''p0'', ''p1''])) ''other_trial_1'' = Some (PStr ''p1'')"
proof -
  let ?st = "store_with [(''threshold'', PStr ''3'')]"
  have v: "valid_ref ?st (Some 0)"
    by (simp add: valid_ref_def store_with_def)
  have b: "valid_base_config example_base_config"
    by (simp add: valid_base_config_def example_base_config_def)
  note t = sagemaker_merge_order [OF v b example_sagemaker_run]
  have n: "next_free ?st = 1" and o: "or_empty (Some 0) ?st = [(''threshold'', PStr ''3'')]"
    by (simp_all add: store_with_def or_empty_def)
  have k: "str_nat (Suc 0) = ''1''"
    by (simp add: str_nat.simps digit_char_def)
  from t have r: "rule_parameters example_rule_after_sagemaker = Some 1"
    by (simp only: n o)
  from t have m: "map_of (cells example_store_after_sagemaker 1)
     = map_of (other_trial_entries (Some [''p0'', ''p1'']))
       ++ map_of (default_rule_params example_base_config)
       ++ map_of [(''threshold'', PStr ''3'')]"
    by (simp only: n o)
  from t have "\<forall>paths i. Some [''p0'', ''p1''] = Some paths \<and> i < length paths \<longrightarrow>
      dict_get (other_trial_entries (Some [''p0'', ''p1''])) (''other_trial_'' @ str_nat i)
        = Some (PStr (paths ! i))"
    by blast
  from this [rule_format, of "[''p0'', ''p1'']" 1]
  have e: "dict_get (other_trial_entries (Some [''p0'', ''p1''])) ''other_trial_1'' = Some (PStr ''p1'')"
    by (simp add: k)
  from v b example_sagemaker_run r m e show ?thesis by blast
qed

section \<open>Equality and hash of collection configs\<close>

lemma pyval_eq_refl: "pyval_eq v v"
  by (cases v) simp_all

lemma dict_eq_same_set:
  assumes "distinct (map fst x)" "distinct (map fst y)" "set x = set y"
  shows "dict_eq x y"
proof -
  from assms have "distinct x" "distinct y"
    by (simp_all add: distinct_map)
  with assms(3) have "length x = length y"
    by (metis distinct_card)
  moreover have "list_all (\<lambda>(k, v). case dict_get y k of None \<Rightarrow> False | Some w \<Rightarrow> pyval_eq v w) x"
    using assms(2,3) by (auto simp: list_all_iff dict_get_def pyval_eq_refl)
  ultimately show ?thesis by (simp add: dict_eq_def)
qed

lemma sort_key_same_set:
  assumes "distinct (map fst x)" "distinct (map fst y)" "set x = set y"
  shows "sort_key fst x = sort_key fst (y :: (string \<times> 'v) list)"
proof (rule map_sorted_distinct_set_unique [where f = fst])
  from assms(1) have "inj_on fst (set x)" by (simp add: distinct_map)
  with assms(3) show "inj_on fst (set (sort_key fst x) \<union> set (sort_key fst y))" by simp
  show "sorted (map fst (sort_key fst x))" "sorted (map fst (sort_key fst y))" by simp_all
  from assms(1) show "distinct (map fst (sort_key fst x))" by (simp add: distinct_map)
  from assms(2) show "distinct (map fst (sort_key fst y))" by (simp add: distinct_map)
  from assms(3) show "set (sort_key fst x) = set (sort_key fst y)" by simp
qed

text \<open>
  Claim C7. Two \<open>CollectionConfig\<close> instances with the same name and the same parameter
  mapping, whatever the order of insertion, are equal by \<open>__eq__\<close> and have the same
  hash. The hash of an instance is the builtin \<open>hash\<close> of the pair of its name and its
  parameter items sorted by key: the second component has its keys in order and is a
  rearrangement of the items of the mapping (the same entries, as many of them; none
  for a missing mapping), and the two instances are hashed through the same pair.
\<close>

theorem collection_config_eq_hash:
  assumes "collection_name c1 = collection_name c2"
    and "same_mapping (parameters c1) (parameters c2)"
  shows "CollectionConfig_eq c1 (IsCollectionConfig c2) = Inr True \<and>
         CollectionConfig_hash builtin_hash c1 = CollectionConfig_hash builtin_hash c2 \<and>
         hash_key c1 = hash_key c2 \<and>
         sorted (map fst (snd (hash_key c1))) \<and>
         set (snd (hash_key c1)) = set (case parameters c1 of None \<Rightarrow> [] | Some p \<Rightarrow> p) \<and>
         length (snd (hash_key c1)) = length (case parameters c1 of None \<Rightarrow> [] | Some p \<Rightarrow> p) \<and>
         CollectionConfig_hash builtin_hash c1
           = builtin_hash (collection_name c1, snd (hash_key c1)) \<and>
         CollectionConfig_hash builtin_hash c2
           = builtin_hash (collection_name c2, snd (hash_key c2))"
proof -
  have e: "opt_dict_eq (parameters c1) (parameters c2)"
    using assms(2)
    by (auto simp: same_mapping_def opt_dict_eq_def dict_eq_same_set split: option.splits)
  have k: "hash_key c1 = hash_key c2"
    using assms
    by (auto simp: same_mapping_def hash_key_def sort_key_same_set split: option.splits)
  have s: "sorted (map fst (snd (hash_key c1)))"
    and t: "set (snd (hash_key c1)) = set (case parameters c1 of None \<Rightarrow> [] | Some p \<Rightarrow> p)"
    and l: "length (snd (hash_key c1)) = length (case parameters c1 of None \<Rightarrow> [] | Some p \<Rightarrow> p)"
    by (simp_all add: hash_key_def)
  have h: "\<And>c. CollectionConfig_hash builtin_hash c
                = builtin_hash (collection_name c, snd (hash_key c))"
    by (simp add: CollectionConfig_hash_def hash_key_def)
  from assms(1) e have "CollectionConfig_eq c1 (IsCollectionConfig c2) = Inr True"
    by (simp add: CollectionConfig_eq_def)
  moreover from k have "CollectionConfig_hash builtin_hash c1 = CollectionConfig_hash builtin_hash c2"
    by (simp add: CollectionConfig_hash_def)
  ultimately show ?thesis using k s t l h by blast
qed


theorem collection_config_eq_hash_witness:
  "collection_name \<lparr>collection_name = Some ''losses'',
       parameters = Some [(''train.save_interval'', PStr ''100''), (''eval.save_interval'', PStr ''10'')]\<rparr>
     = collection_name \<lparr>collection_name = Some ''losses'',
       parameters = Some [(''eval.save_interval'', PStr ''10''), (''train.save_interval'', PStr ''100'')]\<rparr> \<and>
   same_mapping
     (Some [(''train.save_interval'', PStr ''100''), (''eval.save_interval'', PStr ''10'')])
     (Some [(''eval.save_interval'', PStr ''10''), (''train.save_interval'', PStr ''100'')]) \<and>
   CollectionConfig_eq
     \<lparr>collection_name = Some ''losses'',
      parameters = Some [(''train.save_interval'', PStr ''100''), (''eval.save_interval'', PStr ''10'')]\<rparr>
     (IsCollectionConfig \<lparr>collection_name = Some ''losses'',
      parameters = Some [(''eval.save_interval'', PStr ''10''), (''train.save_interval'', PStr ''100'')]\<rparr>)
     = Inr True \<and>
   hash_key \<lparr>collection_name = Some ''losses'',
      parameters = Some [(''train.save_interval'', PStr ''100''), (''eval.save_interval'', PStr ''10'')]\<rparr>
     = (Some ''losses'', [(''eval.save_interval'', PStr ''10''), (''train.save_interval'', PStr ''100'')]) \<and>
   hash_key \<lparr>collection_name = Some ''losses'',
      parameters = Some [(''eval.save_interval'', PStr ''10''), (''train.save_interval'', PStr ''100'')]\<rparr>
     = (Some ''losses'', [(''eval.save_interval'', PStr ''10''), (''train.save_interval'', PStr ''100'')]) \<and>
   CollectionConfig_hash
     (\<lambda>k. if k = (Some ''losses'', [(''eval.save_interval'', PStr ''10''),
        (''train.save_interval'', PStr ''100'')]) then 1 else 0)
     \<lparr>collection_name = Some ''losses'',
      parameters = Some [(''train.save_interval'', PStr ''100''), (''eval.save_interval'', PStr ''10'')]\<rparr>
     = 1 \<and>
   CollectionConfig_hash
     (\<lambda>k. if k = (Some ''losses'', [(''eval.save_interval'', PStr ''10''),
        (''train.save_interval'', PStr ''100'')]) then 1 else 0)
     \<lparr>collection_name = Some ''losses'',
      parameters = Some [(''eval.save_interval'', PStr ''10''), (''train.save_interval'', PStr ''100'')]\<rparr>
     = 1"
proof -
  let ?a = "\<lparr>collection_name = Some ''losses'',
      parameters = Some [(''train.save_interval'', PStr ''100''), (''eval.save_interval'', PStr ''10'')]\<rparr>"
  let ?b = "\<lparr>collection_name = Some ''losses'',
      parameters = Some [(''eval.save_interval'', PStr ''10''), (''train.save_interval'', PStr ''100'')]\<rparr>"
  have n: "collection_name ?a = collection_name ?b" by simp
  have m: "same_mapping (parameters ?a) (parameters ?b)"
    by (simp add: same_mapping_def) blast
  have h: "hash_key ?b
      = (Some ''losses'', [(''eval.save_interval'', PStr ''10''), (''train.save_interval'', PStr ''100'')])"
    by (simp add: hash_key_def)
  from collection_config_eq_hash [OF n m, where builtin_hash = "\<lambda>k. if k = (Some ''losses'',
      [(''eval.save_interval'', PStr ''10''), (''train.save_interval'', PStr ''100'')]) then 1 else 0"] h n m
  show ?thesis by simp
qed

section \<open>Equality of data holders\<close>

lemma all_eq_True:
  "all_eq f xs = Inr True \<longleftrightarrow> (\<forall>x \<in> set xs. f x = Inr True)"
  by (induction xs) (auto split: sum.splits)

lemma slots_ne_same: "\<not> slots_ne (slots c) (slots c)"
  by (cases c) simp_all

lemma slots_ne_base: "c \<noteq> JumpStartDataHolderType \<Longrightarrow> slots_ne (SlotsList []) (slots c)"
  by (cases c) simp_all

lemma attr_eq_step:
  "(case map_of a s of
      None \<Rightarrow> Inl AttributeError
    | Some x \<Rightarrow> (case map_of b s of None \<Rightarrow> Inl AttributeError | Some y \<Rightarrow> py_eq x y)) = Inr True
   \<longleftrightarrow> (\<exists>x y. map_of a s = Some x \<and> map_of b s = Some y \<and> py_eq x y = Inr True)"
  by (auto split: option.splits)

lemma py_eq_same_class:
  "py_eq (JObj c a) (JObj c b) = Inr True \<longleftrightarrow>
     (\<forall>s \<in> set (slot_names (slots c)).
        \<exists>x y. map_of a s = Some x \<and> map_of b s = Some y \<and> py_eq x y = Inr True)"
  by (simp add: issubclass_def slots_ne_same all_eq_True attr_eq_step)

lemma py_eq_other_class:
  "c \<noteq> c' \<Longrightarrow> py_eq (JObj c a) (JObj c' b) = Inr False"
  using slots_ne_base [of c'] by (auto simp: issubclass_def)

lemma py_eq_not_object:
  "\<not> isinstance other JumpStartDataHolderType \<Longrightarrow> py_eq (JObj c a) other = Inr False"
  by (cases other) (auto simp: isinstance_def issubclass_def)

text \<open>
  Claim C8. \<open>__eq__\<close> of a data holder returns \<open>True\<close> exactly when the other value is
  an instance of the very same class and every declared attribute of the two is set and
  equal. Against an instance of another class (the base class against a subclass or the
  other way round included) and against a value that is no data holder it returns
  \<open>False\<close>. The classes are those that \<open>types.py\<close> declares.
\<close>

theorem data_holder_eq_type_exact:
  "(JumpStartDataHolderType_eq self (as_val other) = Inr True \<longleftrightarrow>
      fst self = fst other \<and>
      (\<forall>s \<in> set (slot_names (slots (fst self))).
         \<exists>x y. getattr self s = Inr x \<and> getattr other s = Inr y \<and> py_eq x y = Inr True)) \<and>
   (fst self \<noteq> fst other \<longrightarrow> JumpStartDataHolderType_eq self (as_val other) = Inr False) \<and>
   (\<not> isinstance v JumpStartDataHolderType \<longrightarrow> JumpStartDataHolderType_eq self v = Inr False)"
proof (intro conjI impI)
  show "JumpStartDataHolderType_eq self (as_val other) = Inr True \<longleftrightarrow>
      fst self = fst other \<and>
      (\<forall>s \<in> set (slot_names (slots (fst self))).
         \<exists>x y. getattr self s = Inr x \<and> getattr other s = Inr y \<and> py_eq x y = Inr True)"
  proof (cases "fst self = fst other")
    case True
    have g: "\<And>ob s x. getattr ob s = Inr x \<longleftrightarrow> map_of (snd ob) s = Some x"
      by (simp add: getattr_def split: option.splits)
    show ?thesis
      unfolding JumpStartDataHolderType_eq_def as_val_def g True [symmetric]
      using py_eq_same_class [of "fst self" "snd self" "snd other"] True
      by (simp del: py_eq.simps)
  next
    case False
    then show ?thesis
      by (simp add: JumpStartDataHolderType_eq_def as_val_def py_eq_other_class del: py_eq.simps)
  qed
next
  assume "fst self \<noteq> fst other"
  then show "JumpStartDataHolderType_eq self (as_val other) = Inr False"
    by (simp add: JumpStartDataHolderType_eq_def as_val_def py_eq_other_class del: py_eq.simps)
next
  assume "\<not> isinstance v JumpStartDataHolderType"
  then show "JumpStartDataHolderType_eq self v = Inr False"
    by (simp add: JumpStartDataHolderType_eq_def as_val_def py_eq_not_object del: py_eq.simps)
qed

theorem data_holder_eq_type_exact_witness:
  "JumpStartDataHolderType_eq example_versioned_id (as_val example_versioned_id_again) = Inr True \<and>
   fst (JumpStartDataHolderType, []) \<noteq> fst example_versioned_id \<and>
   JumpStartDataHolderType_eq (JumpStartDataHolderType, []) (as_val example_versioned_id)
     = Inr False \<and>
   JumpStartDataHolderType_eq example_versioned_id (as_val (JumpStartDataHolderType, []))
     = Inr False \<and>
   \<not> isinstance (JStr ''pytorch-ic-mobilenet-v2'') JumpStartDataHolderType \<and>
   JumpStartDataHolderType_eq example_versioned_id (JStr ''pytorch-ic-mobilenet-v2'') = Inr False"
proof -
  have s: "\<forall>s \<in> set (slot_names (slots (fst example_versioned_id))).
             \<exists>x y. getattr example_versioned_id s = Inr x \<and>
                   getattr example_versioned_id_again s = Inr y \<and> py_eq x y = Inr True"
    by (simp add: example_versioned_id_def example_versioned_id_again_def getattr_def)
  have c: "fst example_versioned_id = fst example_versioned_id_again"
    by (simp add: example_versioned_id_def example_versioned_id_again_def)
  have d: "fst (JumpStartDataHolderType, []) \<noteq> fst example_versioned_id"
    "fst example_versioned_id \<noteq> fst (JumpStartDataHolderType, [])"
    by (simp_all add: example_versioned_id_def)
  have n: "\<not> isinstance (JStr ''pytorch-ic-mobilenet-v2'') JumpStartDataHolderType"
    by (simp add: isinstance_def)
  from data_holder_eq_type_exact [of example_versioned_id example_versioned_id_again
      "JStr ''pytorch-ic-mobilenet-v2''"] s c n
  have "JumpStartDataHolderType_eq example_versioned_id (as_val example_versioned_id_again)
          = Inr True"
    and "JumpStartDataHolderType_eq example_versioned_id (JStr ''pytorch-ic-mobilenet-v2'')
          = Inr False"
    by blast+
  moreover from data_holder_eq_type_exact [of "(JumpStartDataHolderType, [])"
      example_versioned_id JNone] d(1)
  have "JumpStartDataHolderType_eq (JumpStartDataHolderType, []) (as_val example_versioned_id)
          = Inr False"
    by blast
  moreover from data_holder_eq_type_exact [of example_versioned_id
      "(JumpStartDataHolderType, [])" JNone] d(2)
  have "JumpStartDataHolderType_eq example_versioned_id (as_val (JumpStartDataHolderType, []))
          = Inr False"
    by blast
  ultimately show ?thesis using d(1) n by blast
qed

section \<open>The training attributes of a model spec\<close>

lemma on_success_Inr:
  "on_success r f = Inr y \<longleftrightarrow> (\<exists>x. r = Inr x \<and> f x = Inr y)"
  by (cases r) (simp_all add: on_success_def)

lemma getattr_setattr:
  "getattr (setattr self a v) b = (if b = a then Inr v else getattr self b)"
  by (simp add: getattr_def setattr_def update_conv)

lemma example_header_init: "JumpStartModelHeader_init example_header = Inr example_header_obj"
  by (simp add: JumpStartModelHeader_init_def JumpStartModelHeader_from_json_def on_success_def
      example_header_def example_header_obj_def setattr_def)

lemma example_ecr_init: "JumpStartECRSpecs_init example_ecr = Inr example_ecr_obj"
  by (simp add: JumpStartECRSpecs_init_def JumpStartECRSpecs_from_json_def on_success_def
      example_ecr_def example_ecr_obj_def setattr_def)

lemma example_spec_init: "JumpStartModelSpecs_init (example_spec t) = Inr (example_spec_obj t)"
  by (simp add: JumpStartModelSpecs_init_def JumpStartModelSpecs_from_json_def on_success_def
      example_spec_def example_spec_obj_def setattr_def example_ecr_init Let_def)

lemma example_json:
  "json_value example_header" "json_value example_ecr" "json_value (example_spec t)"
  by (simp_all add: example_header_def example_ecr_def example_spec_def)

text \<open>
  Claim C9. When \<open>JumpStartModelSpecs.from_json\<close> accepts a mapping whose
  \<open>training_supported\<close> is false, the object has \<open>training_supported = False\<close> and
  \<open>None\<close> in \<open>training_ecr_specs\<close>, \<open>training_artifact_key\<close>,
  \<open>training_script_key\<close> and \<open>hyperparameters\<close>, whatever the mapping holds under
  those keys and whatever the receiver held before.
\<close>

theorem model_specs_training_absent:
  assumes "JumpStartModelSpecs_from_json self json_obj = Inr x"
    and "getitem json_obj ''training_supported'' = Inr v"
    and "\<not> py_truthy v"
  shows "getattr x ''training_supported'' = Inr (JBool False) \<and>
         getattr x ''training_ecr_specs'' = Inr JNone \<and>
         getattr x ''training_artifact_key'' = Inr JNone \<and>
         getattr x ''training_script_key'' = Inr JNone \<and>
         getattr x ''hyperparameters'' = Inr JNone"
  using assms
  by (auto simp: JumpStartModelSpecs_from_json_def on_success_Inr Let_def getattr_setattr)

theorem model_specs_training_absent_witness:
  "JumpStartModelSpecs_from_json (JumpStartModelSpecs, []) (example_spec False)
     = Inr (example_spec_obj False) \<and>
   getitem (example_spec False) ''training_supported'' = Inr (JBool False) \<and>
   \<not> py_truthy (JBool False) \<and>
   getitem (example_spec False) ''training_artifact_key'' = Inr (JStr ''train.tar.gz'') \<and>
   getattr (example_spec_obj False) ''training_supported'' = Inr (JBool False) \<and>
   getattr (example_spec_obj False) ''training_ecr_specs'' = Inr JNone \<and>
   getattr (example_spec_obj False) ''training_artifact_key'' = Inr JNone \<and>
   getattr (example_spec_obj False) ''training_script_key'' = Inr JNone \<and>
   getattr (example_spec_obj False) ''hyperparameters'' = Inr JNone"
proof -
  have a: "JumpStartModelSpecs_from_json (JumpStartModelSpecs, []) (example_spec False)
             = Inr (example_spec_obj False)"
    using example_spec_init [of False] by (simp add: JumpStartModelSpecs_init_def)
  have b: "getitem (example_spec False) ''training_supported'' = Inr (JBool False)"
    and d: "getitem (example_spec False) ''training_artifact_key'' = Inr (JStr ''train.tar.gz'')"
    by (simp_all add: example_spec_def)
  have c: "\<not> py_truthy (JBool False)" by simp
  from model_specs_training_absent [OF a b c] a b c d show ?thesis by blast
qed

section \<open>The round trip through \<open>to_json\<close>\<close>

lemma py_eq_refl: "json_value v \<Longrightarrow> py_eq v v = Inr True"
proof (induction v)
  case (JList xs)
  then show ?case
    by (auto simp: all_eq_True zip_same list_all_iff)
next
  case (JDict d)
  then show ?case
    by (fastforce simp: all_eq_True list_all_iff)
qed simp_all

lemma getitem_json: "json_value j \<Longrightarrow> getitem j k = Inr v \<Longrightarrow> json_value v"
  by (cases j) (auto simp: list_all_iff split: option.splits dest!: map_of_SomeD)

lemma get_or_none_json: "json_value j \<Longrightarrow> get_or_none j k = Inr v \<Longrightarrow> json_value v"
  by (cases j) (auto simp: list_all_iff split: option.splits dest!: map_of_SomeD)

lemma header_init_form:
  assumes "JumpStartModelHeader_init j = Inr x"
  shows "\<exists>v1 v2 v3 v4.
           getitem j ''model_id'' = Inr v1 \<and> getitem j ''version'' = Inr v2 \<and>
           getitem j ''min_version'' = Inr v3 \<and> getitem j ''spec_key'' = Inr v4 \<and>
           x = (JumpStartModelHeader,
                [(''model_id'', v1), (''version'', v2), (''min_version'', v3), (''spec_key'', v4)])"
  using assms
  by (auto simp: JumpStartModelHeader_init_def JumpStartModelHeader_from_json_def on_success_Inr
      setattr_def)

lemma header_to_json:
  "JumpStartModelHeader_to_json
     (JumpStartModelHeader,
      [(''model_id'', v1), (''version'', v2), (''min_version'', v3), (''spec_key'', v4)])
   = Inr (JDict [(''model_id'', v1), (''version'', v2), (''min_version'', v3),
                 (''spec_key'', v4)])"
  by (simp add: JumpStartModelHeader_to_json_def on_success_def getattr_def dict_setitem_def)

lemma header_from_json:
  "JumpStartModelHeader_from_json self
     (JDict [(''model_id'', v1), (''version'', v2), (''min_version'', v3), (''spec_key'', v4)])
   = Inr (setattr (setattr (setattr (setattr self ''model_id'' v1) ''version'' v2)
            ''min_version'' v3) ''spec_key'' v4)"
  by (simp add: JumpStartModelHeader_from_json_def on_success_def)

lemma header_eq:
  assumes "json_value v1" "json_value v2" "json_value v3" "json_value v4"
  shows "py_eq (as_val (setattr (setattr (setattr (setattr (JumpStartModelHeader, attrs)
                   ''model_id'' v1) ''version'' v2) ''min_version'' v3) ''spec_key'' v4))
           (JObj JumpStartModelHeader
              [(''model_id'', v1), (''version'', v2), (''min_version'', v3), (''spec_key'', v4)])
         = Inr True"
  unfolding as_val_def
  by (simp add: setattr_def py_eq_same_class update_conv py_eq_refl assms del: py_eq.simps)

lemma ecr_init_form:
  assumes "JumpStartECRSpecs_init j = Inr x"
  shows "\<exists>v1 v2 v3.
           getitem j ''framework'' = Inr v1 \<and> getitem j ''framework_version'' = Inr v2 \<and>
           getitem j ''py_version'' = Inr v3 \<and>
           x = (JumpStartECRSpecs,
                [(''framework'', v1), (''framework_version'', v2), (''py_version'', v3)])"
  using assms
  by (auto simp: JumpStartECRSpecs_init_def JumpStartECRSpecs_from_json_def on_success_Inr
      setattr_def)

lemma ecr_to_json:
  "JumpStartECRSpecs_to_json
     (JumpStartECRSpecs, [(''framework'', v1), (''framework_version'', v2), (''py_version'', v3)])
   = Inr (JDict [(''framework'', v1), (''framework_version'', v2), (''py_version'', v3)])"
  by (simp add: JumpStartECRSpecs_to_json_def on_success_def getattr_def dict_setitem_def)

lemma ecr_from_json:
  "JumpStartECRSpecs_from_json self
     (JDict [(''framework'', v1), (''framework_version'', v2), (''py_version'', v3)])
   = Inr (setattr (setattr (setattr self ''framework'' v1) ''framework_version'' v2)
            ''py_version'' v3)"
  by (simp add: JumpStartECRSpecs_from_json_def on_success_def)

lemma ecr_eq:
  assumes "json_value v1" "json_value v2" "json_value v3"
  shows "py_eq (as_val (setattr (setattr (setattr (JumpStartECRSpecs, attrs) ''framework'' v1)
                   ''framework_version'' v2) ''py_version'' v3))
           (JObj JumpStartECRSpecs
              [(''framework'', v1), (''framework_version'', v2), (''py_version'', v3)])
         = Inr True"
  unfolding as_val_def
  by (simp add: setattr_def py_eq_same_class update_conv py_eq_refl assms del: py_eq.simps)

lemma json_not_instance: "json_value v \<Longrightarrow> \<not> isinstance v c"
  by (cases v) (simp_all add: isinstance_def)

lemma isinstance_scalar:
  "\<not> isinstance JNone c" "\<not> isinstance (JBool b) c" "\<not> isinstance (JInt n) c"
  "\<not> isinstance (JStr t) c" "\<not> isinstance (JList xs) c" "\<not> isinstance (JDict d) c"
  by (simp_all add: isinstance_def)

lemma ecr_instance: "isinstance (JObj JumpStartECRSpecs attrs) JumpStartECRSpecs"
  by (simp add: isinstance_def issubclass_def)

lemma as_obj_JObj: "as_obj (JObj c attrs) = (c, attrs)"
  by (simp add: as_obj_def)

lemma ecr_refl:
  assumes "json_value v1" "json_value v2" "json_value v3"
  shows "py_eq (JObj JumpStartECRSpecs
                  [(''framework'', v1), (''framework_version'', v2), (''py_version'', v3)])
               (JObj JumpStartECRSpecs
                  [(''framework'', v1), (''framework_version'', v2), (''py_version'', v3)])
         = Inr True"
  by (simp add: py_eq_same_class py_eq_refl assms del: py_eq.simps)

lemma ecr_init_dict:
  "JumpStartECRSpecs_init
     (JDict [(''framework'', v1), (''framework_version'', v2), (''py_version'', v3)])
   = Inr (JumpStartECRSpecs,
          [(''framework'', v1), (''framework_version'', v2), (''py_version'', v3)])"
  by (simp add: JumpStartECRSpecs_init_def ecr_from_json setattr_def)

lemma specs_to_json_supported:
  assumes "json_value m" "json_value v" "json_value s" "json_value ha" "json_value hs"
    "json_value ta" "json_value tk" "json_value hp"
  shows "JumpStartModelSpecs_to_json
           (JumpStartModelSpecs,
            specs_attrs m v s i (JObj JumpStartECRSpecs (ecr_attrs h1 h2 h3)) ha hs True
              (JObj JumpStartECRSpecs (ecr_attrs t1 t2 t3)) ta tk hp)
         = Inr (JDict (specs_attrs m v s i (JDict (ecr_attrs h1 h2 h3)) ha hs True
                         (JDict (ecr_attrs t1 t2 t3)) ta tk hp))"
  using assms
  by (simp add: JumpStartModelSpecs_to_json_def specs_attrs_def ecr_attrs_def on_success_def
      getattr_def dict_setitem_def json_not_instance ecr_instance as_obj_JObj ecr_to_json
      isinstance_scalar)

lemma specs_to_json_unsupported:
  assumes "json_value m" "json_value v" "json_value s" "json_value ha" "json_value hs"
  shows "JumpStartModelSpecs_to_json
           (JumpStartModelSpecs,
            specs_attrs m v s i (JObj JumpStartECRSpecs (ecr_attrs h1 h2 h3)) ha hs False
              JNone JNone JNone JNone)
         = Inr (JDict (specs_attrs m v s i (JDict (ecr_attrs h1 h2 h3)) ha hs False
                         JNone JNone JNone JNone))"
  using assms
  by (simp add: JumpStartModelSpecs_to_json_def specs_attrs_def ecr_attrs_def on_success_def
      getattr_def dict_setitem_def json_not_instance ecr_instance as_obj_JObj ecr_to_json
      isinstance_scalar)

lemma specs_from_json_supported:
  "\<exists>a. JumpStartModelSpecs_from_json (JumpStartModelSpecs, attrs)
          (JDict (specs_attrs m v s i (JDict (ecr_attrs h1 h2 h3)) ha hs True
                    (JDict (ecr_attrs t1 t2 t3)) ta tk hp))
        = Inr (JumpStartModelSpecs, a) \<and>
       (\<forall>k \<in> set (slot_names (slots JumpStartModelSpecs)).
          map_of a k =
          map_of (specs_attrs m v s i (JObj JumpStartECRSpecs (ecr_attrs h1 h2 h3)) ha hs True
                    (JObj JumpStartECRSpecs (ecr_attrs t1 t2 t3)) ta tk hp) k)"
  by (simp add: JumpStartModelSpecs_from_json_def on_success_def specs_attrs_def
      ecr_init_dict ecr_attrs_def setattr_def as_val_def
      update_conv Let_def)

lemma specs_from_json_unsupported:
  "\<exists>a. JumpStartModelSpecs_from_json (JumpStartModelSpecs, attrs)
          (JDict (specs_attrs m v s i (JDict (ecr_attrs h1 h2 h3)) ha hs False
                    JNone JNone JNone JNone))
        = Inr (JumpStartModelSpecs, a) \<and>
       (\<forall>k \<in> set (slot_names (slots JumpStartModelSpecs)).
          map_of a k =
          map_of (specs_attrs m v s i (JObj JumpStartECRSpecs (ecr_attrs h1 h2 h3)) ha hs False
                    JNone JNone JNone JNone) k)"
  by (simp add: JumpStartModelSpecs_from_json_def on_success_def specs_attrs_def
      ecr_init_dict ecr_attrs_def setattr_def as_val_def
      update_conv Let_def)

lemma ecr_or_none_refl: "ecr_or_none v \<Longrightarrow> py_eq v v = Inr True"
  unfolding ecr_or_none_def ecr_attrs_def
  by (elim disjE exE conjE) (simp, simp add: ecr_refl del: py_eq.simps)

lemma specs_eq:
  assumes "json_value m" "json_value v" "json_value s" "json_value ha" "json_value hs"
    "json_value ta" "json_value tk" "json_value hp" "ecr_or_none h" "ecr_or_none te"
    and "\<forall>k \<in> set (slot_names (slots JumpStartModelSpecs)).
           map_of a k = map_of (specs_attrs m v s i h ha hs t te ta tk hp) k"
  shows "JumpStartDataHolderType_eq (JumpStartModelSpecs, a)
           (as_val (JumpStartModelSpecs, specs_attrs m v s i h ha hs t te ta tk hp)) = Inr True"
proof -
  have "\<forall>k \<in> set (slot_names (slots JumpStartModelSpecs)).
          \<exists>x. map_of (specs_attrs m v s i h ha hs t te ta tk hp) k = Some x \<and> py_eq x x = Inr True"
    using assms(1-10)
    by (simp add: specs_attrs_def py_eq_refl ecr_or_none_refl del: py_eq.simps)
  with assms(11)
  have "\<forall>k \<in> set (slot_names (slots JumpStartModelSpecs)).
          \<exists>x y. map_of a k = Some x \<and>
                map_of (specs_attrs m v s i h ha hs t te ta tk hp) k = Some y \<and>
                py_eq x y = Inr True"
    by metis
  then show ?thesis
    unfolding JumpStartDataHolderType_eq_def as_val_def fst_conv snd_conv py_eq_same_class .
qed

lemma specs_init_form:
  assumes "JumpStartModelSpecs_init j = Inr x"
  shows "\<exists>m v s iv hj h1 h2 h3 ha hs tv te ta tk hp.
           getitem j ''model_id'' = Inr m \<and> getitem j ''version'' = Inr v \<and>
           getitem j ''min_sdk_version'' = Inr s \<and>
           getitem j ''incremental_training_supported'' = Inr iv \<and>
           getitem j ''hosting_ecr_specs'' = Inr hj \<and>
           getitem hj ''framework'' = Inr h1 \<and> getitem hj ''framework_version'' = Inr h2 \<and>
           getitem hj ''py_version'' = Inr h3 \<and>
           getitem j ''hosting_artifact_key'' = Inr ha \<and>
           getitem j ''hosting_script_key'' = Inr hs \<and>
           getitem j ''training_supported'' = Inr tv \<and>
           (if py_truthy tv then
              (\<exists>tj t1 t2 t3.
                 getitem j ''training_ecr_specs'' = Inr tj \<and>
                 getitem tj ''framework'' = Inr t1 \<and> getitem tj ''framework_version'' = Inr t2 \<and>
                 getitem tj ''py_version'' = Inr t3 \<and>
                 te = JObj JumpStartECRSpecs (ecr_attrs t1 t2 t3)) \<and>
              getitem j ''training_artifact_key'' = Inr ta \<and>
              getitem j ''training_script_key'' = Inr tk \<and>
              get_or_none j ''hyperparameters'' = Inr hp
            else te = JNone \<and> ta = JNone \<and> tk = JNone \<and> hp = JNone) \<and>
           x = (JumpStartModelSpecs,
                specs_attrs m v s (py_truthy iv) (JObj JumpStartECRSpecs (ecr_attrs h1 h2 h3))
                  ha hs (py_truthy tv) te ta tk hp)"
  using assms
  unfolding JumpStartModelSpecs_init_def JumpStartModelSpecs_from_json_def
  by (auto simp: on_success_Inr setattr_def as_val_def specs_attrs_def ecr_attrs_def Let_def
      dest!: ecr_init_form split: if_splits)

lemma header_part:
  assumes "json_value j" and "JumpStartModelHeader_init j = Inr x"
  shows "\<exists>y. JumpStartModelHeader_to_json x = Inr y \<and> json_value y \<and>
           (\<forall>attrs. \<exists>x'. JumpStartModelHeader_from_json (JumpStartModelHeader, attrs) y = Inr x' \<and>
                         JumpStartDataHolderType_eq x' (as_val x) = Inr True)"
proof -
  from header_init_form [OF assms(2)] obtain v1 v2 v3 v4 where
    g: "getitem j ''model_id'' = Inr v1" "getitem j ''version'' = Inr v2"
       "getitem j ''min_version'' = Inr v3" "getitem j ''spec_key'' = Inr v4"
    and x: "x = (JumpStartModelHeader,
                [(''model_id'', v1), (''version'', v2), (''min_version'', v3), (''spec_key'', v4)])"
    by blast
  from g have v: "json_value v1" "json_value v2" "json_value v3" "json_value v4"
    using getitem_json [OF assms(1)] by blast+
  let ?y = "JDict [(''model_id'', v1), (''version'', v2), (''min_version'', v3), (''spec_key'', v4)]"
  have "JumpStartModelHeader_to_json x = Inr ?y"
    unfolding x by (rule header_to_json)
  moreover have "json_value ?y"
    using v by simp
  moreover have "\<forall>attrs. \<exists>x'. JumpStartModelHeader_from_json (JumpStartModelHeader, attrs) ?y = Inr x' \<and>
                         JumpStartDataHolderType_eq x' (as_val x) = Inr True"
    using header_eq [OF v]
    by (simp add: header_from_json JumpStartDataHolderType_eq_def x as_val_def [of "(a, b)" for a b]
        del: py_eq.simps)
  ultimately show ?thesis by blast
qed

lemma ecr_part:
  assumes "json_value j" and "JumpStartECRSpecs_init j = Inr x"
  shows "\<exists>y. JumpStartECRSpecs_to_json x = Inr y \<and> json_value y \<and>
           (\<forall>attrs. \<exists>x'. JumpStartECRSpecs_from_json (JumpStartECRSpecs, attrs) y = Inr x' \<and>
                         JumpStartDataHolderType_eq x' (as_val x) = Inr True)"
proof -
  from ecr_init_form [OF assms(2)] obtain v1 v2 v3 where
    g: "getitem j ''framework'' = Inr v1" "getitem j ''framework_version'' = Inr v2"
       "getitem j ''py_version'' = Inr v3"
    and x: "x = (JumpStartECRSpecs,
                [(''framework'', v1), (''framework_version'', v2), (''py_version'', v3)])"
    by blast
  from g have v: "json_value v1" "json_value v2" "json_value v3"
    using getitem_json [OF assms(1)] by blast+
  let ?y = "JDict [(''framework'', v1), (''framework_version'', v2), (''py_version'', v3)]"
  have "JumpStartECRSpecs_to_json x = Inr ?y"
    unfolding x by (rule ecr_to_json)
  moreover have "json_value ?y"
    using v by simp
  moreover have "\<forall>attrs. \<exists>x'. JumpStartECRSpecs_from_json (JumpStartECRSpecs, attrs) ?y = Inr x' \<and>
                         JumpStartDataHolderType_eq x' (as_val x) = Inr True"
    using ecr_eq [OF v]
    by (simp add: ecr_from_json JumpStartDataHolderType_eq_def x as_val_def [of "(a, b)" for a b]
        del: py_eq.simps)
  ultimately show ?thesis by blast
qed

lemma json_specs_attrs:
  "json_value (JDict (specs_attrs m v s i h ha hs t te ta tk hp)) \<longleftrightarrow>
     json_value m \<and> json_value v \<and> json_value s \<and> json_value h \<and> json_value ha \<and>
     json_value hs \<and> json_value te \<and> json_value ta \<and> json_value tk \<and> json_value hp"
  by (simp add: specs_attrs_def)

lemma json_ecr_attrs:
  "json_value (JDict (ecr_attrs v1 v2 v3)) \<longleftrightarrow> json_value v1 \<and> json_value v2 \<and> json_value v3"
  by (simp add: ecr_attrs_def)

lemma specs_part:
  assumes "json_value j" and "JumpStartModelSpecs_init j = Inr x"
  shows "\<exists>y. JumpStartModelSpecs_to_json x = Inr y \<and> json_value y \<and>
           (\<forall>attrs. \<exists>x'. JumpStartModelSpecs_from_json (JumpStartModelSpecs, attrs) y = Inr x' \<and>
                         JumpStartDataHolderType_eq x' (as_val x) = Inr True)"
proof -
  from specs_init_form [OF assms(2)]
  obtain m v s iv hj h1 h2 h3 ha hs tv te ta tk hp where
    g: "getitem j ''model_id'' = Inr m" "getitem j ''version'' = Inr v"
       "getitem j ''min_sdk_version'' = Inr s" "getitem j ''hosting_artifact_key'' = Inr ha"
       "getitem j ''hosting_script_key'' = Inr hs"
    and hj: "getitem j ''hosting_ecr_specs'' = Inr hj"
    and gh: "getitem hj ''framework'' = Inr h1" "getitem hj ''framework_version'' = Inr h2"
       "getitem hj ''py_version'' = Inr h3"
    and t: "if py_truthy tv then
              (\<exists>tj t1 t2 t3.
                 getitem j ''training_ecr_specs'' = Inr tj \<and>
                 getitem tj ''framework'' = Inr t1 \<and> getitem tj ''framework_version'' = Inr t2 \<and>
                 getitem tj ''py_version'' = Inr t3 \<and>
                 te = JObj JumpStartECRSpecs (ecr_attrs t1 t2 t3)) \<and>
              getitem j ''training_artifact_key'' = Inr ta \<and>
              getitem j ''training_script_key'' = Inr tk \<and>
              get_or_none j ''hyperparameters'' = Inr hp
            else te = JNone \<and> ta = JNone \<and> tk = JNone \<and> hp = JNone"
    and x: "x = (JumpStartModelSpecs,
                specs_attrs m v s (py_truthy iv) (JObj JumpStartECRSpecs (ecr_attrs h1 h2 h3))
                  ha hs (py_truthy tv) te ta tk hp)"
    by blast
  note gj = getitem_json [OF assms(1)]
  from g have v: "json_value m" "json_value v" "json_value s" "json_value ha" "json_value hs"
    using gj by blast+
  from hj have "json_value hj" by (rule gj)
  with gh have h: "json_value h1" "json_value h2" "json_value h3"
    using getitem_json by blast+
  then have eh: "ecr_or_none (JObj JumpStartECRSpecs (ecr_attrs h1 h2 h3))"
    by (auto simp: ecr_or_none_def)
  show ?thesis
  proof (cases "py_truthy tv")
    case True
    with t obtain tj t1 t2 t3 where
      tj: "getitem j ''training_ecr_specs'' = Inr tj"
      and gt: "getitem tj ''framework'' = Inr t1" "getitem tj ''framework_version'' = Inr t2"
        "getitem tj ''py_version'' = Inr t3"
      and te: "te = JObj JumpStartECRSpecs (ecr_attrs t1 t2 t3)"
      and r: "getitem j ''training_artifact_key'' = Inr ta"
        "getitem j ''training_script_key'' = Inr tk"
      and hp: "get_or_none j ''hyperparameters'' = Inr hp"
      by auto
    from tj have "json_value tj" by (rule gj)
    with gt have tt: "json_value t1" "json_value t2" "json_value t3"
      using getitem_json by blast+
    from r have w: "json_value ta" "json_value tk"
      using gj by blast+
    from hp have p: "json_value hp"
      by (rule get_or_none_json [OF assms(1)])
    from tt have et: "ecr_or_none te"
      by (auto simp: ecr_or_none_def te)
    let ?y = "JDict (specs_attrs m v s (py_truthy iv) (JDict (ecr_attrs h1 h2 h3)) ha hs True
                       (JDict (ecr_attrs t1 t2 t3)) ta tk hp)"
    have "JumpStartModelSpecs_to_json x = Inr ?y"
      using True by (simp add: x te specs_to_json_supported [OF v w p])
    moreover have "json_value ?y"
      using v h tt w p unfolding json_specs_attrs json_ecr_attrs by blast
    moreover have "\<forall>attrs. \<exists>x'. JumpStartModelSpecs_from_json (JumpStartModelSpecs, attrs) ?y = Inr x' \<and>
                         JumpStartDataHolderType_eq x' (as_val x) = Inr True"
    proof
      fix attrs
      from specs_from_json_supported [of attrs m v s "py_truthy iv" h1 h2 h3 ha hs t1 t2 t3 ta tk hp]
      obtain a where a: "JumpStartModelSpecs_from_json (JumpStartModelSpecs, attrs) ?y
                           = Inr (JumpStartModelSpecs, a)"
        and k: "\<forall>k \<in> set (slot_names (slots JumpStartModelSpecs)).
                 map_of a k =
                 map_of (specs_attrs m v s (py_truthy iv)
                           (JObj JumpStartECRSpecs (ecr_attrs h1 h2 h3)) ha hs True
                           (JObj JumpStartECRSpecs (ecr_attrs t1 t2 t3)) ta tk hp) k"
        by blast
      have "JumpStartDataHolderType_eq (JumpStartModelSpecs, a) (as_val x) = Inr True"
        using True specs_eq [OF v w p eh et [unfolded te] k] by (simp add: x te)
      with a show "\<exists>x'. JumpStartModelSpecs_from_json (JumpStartModelSpecs, attrs) ?y = Inr x' \<and>
                         JumpStartDataHolderType_eq x' (as_val x) = Inr True"
        by blast
    qed
    ultimately show ?thesis by blast
  next
    case False
    with t have n: "te = JNone" "ta = JNone" "tk = JNone" "hp = JNone"
      by auto
    have jn: "json_value JNone" by simp
    have en: "ecr_or_none JNone" by (simp add: ecr_or_none_def)
    let ?y = "JDict (specs_attrs m v s (py_truthy iv) (JDict (ecr_attrs h1 h2 h3)) ha hs False
                       JNone JNone JNone JNone)"
    have "JumpStartModelSpecs_to_json x = Inr ?y"
      unfolding x n using False by (simp add: specs_to_json_unsupported [OF v])
    moreover have "json_value ?y"
      using v h jn unfolding json_specs_attrs json_ecr_attrs by blast
    moreover have "\<forall>attrs. \<exists>x'. JumpStartModelSpecs_from_json (JumpStartModelSpecs, attrs) ?y = Inr x' \<and>
                         JumpStartDataHolderType_eq x' (as_val x) = Inr True"
    proof
      fix attrs
      from specs_from_json_unsupported [of attrs m v s "py_truthy iv" h1 h2 h3 ha hs]
      obtain a where a: "JumpStartModelSpecs_from_json (JumpStartModelSpecs, attrs) ?y
                           = Inr (JumpStartModelSpecs, a)"
        and k: "\<forall>k \<in> set (slot_names (slots JumpStartModelSpecs)).
                 map_of a k =
                 map_of (specs_attrs m v s (py_truthy iv)
                           (JObj JumpStartECRSpecs (ecr_attrs h1 h2 h3)) ha hs False
                           JNone JNone JNone JNone) k"
        by blast
      have "JumpStartDataHolderType_eq (JumpStartModelSpecs, a) (as_val x) = Inr True"
        unfolding x n using False specs_eq [OF v jn jn jn eh en k] by simp
      with a show "\<exists>x'. JumpStartModelSpecs_from_json (JumpStartModelSpecs, attrs) ?y = Inr x' \<and>
                         JumpStartDataHolderType_eq x' (as_val x) = Inr True"
        by blast
    qed
    ultimately show ?thesis by blast
  qed
qed

text \<open>
  Claim C10. For \<open>JumpStartModelHeader\<close>, \<open>JumpStartECRSpecs\<close> and
  \<open>JumpStartModelSpecs\<close>, and an instance that the constructor builds from a JSON
  document: \<open>to_json\<close> returns a JSON document (for a model spec the nested ECR specs
  are serialized into dicts, no instance is left in the result), and \<open>from_json\<close> on
  that document, with any receiver of the class, gives an object equal to the instance.
\<close>

theorem json_round_trip:
  "(json_value header \<and> JumpStartModelHeader_init header = Inr hx \<longrightarrow>
      (\<exists>y. JumpStartModelHeader_to_json hx = Inr y \<and> json_value y \<and>
         (\<forall>attrs. \<exists>x'. JumpStartModelHeader_from_json (JumpStartModelHeader, attrs) y = Inr x' \<and>
                       JumpStartDataHolderType_eq x' (as_val hx) = Inr True))) \<and>
   (json_value ecr \<and> JumpStartECRSpecs_init ecr = Inr ex \<longrightarrow>
      (\<exists>y. JumpStartECRSpecs_to_json ex = Inr y \<and> json_value y \<and>
         (\<forall>attrs. \<exists>x'. JumpStartECRSpecs_from_json (JumpStartECRSpecs, attrs) y = Inr x' \<and>
                       JumpStartDataHolderType_eq x' (as_val ex) = Inr True))) \<and>
   (json_value spec \<and> JumpStartModelSpecs_init spec = Inr sx \<longrightarrow>
      (\<exists>y. JumpStartModelSpecs_to_json sx = Inr y \<and> json_value y \<and>
         (\<forall>attrs. \<exists>x'. JumpStartModelSpecs_from_json (JumpStartModelSpecs, attrs) y = Inr x' \<and>
                       JumpStartDataHolderType_eq x' (as_val sx) = Inr True)))"
  using header_part [of header hx] ecr_part [of ecr ex] specs_part [of spec sx]
  by blast

theorem json_round_trip_witness:
  "(json_value example_header \<and> JumpStartModelHeader_init example_header = Inr example_header_obj) \<and>
   (\<exists>y. JumpStartModelHeader_to_json example_header_obj = Inr y \<and> json_value y \<and>
      (\<forall>attrs. \<exists>x'. JumpStartModelHeader_from_json (JumpStartModelHeader, attrs) y = Inr x' \<and>
                    JumpStartDataHolderType_eq x' (as_val example_header_obj) = Inr True)) \<and>
   (json_value example_ecr \<and> JumpStartECRSpecs_init example_ecr = Inr example_ecr_obj) \<and>
   (\<exists>y. JumpStartECRSpecs_to_json example_ecr_obj = Inr y \<and> json_value y \<and>
      (\<forall>attrs. \<exists>x'. JumpStartECRSpecs_from_json (JumpStartECRSpecs, attrs) y = Inr x' \<and>
                    JumpStartDataHolderType_eq x' (as_val example_ecr_obj) = Inr True)) \<and>
   (json_value (example_spec True) \<and>
    JumpStartModelSpecs_init (example_spec True) = Inr (example_spec_obj True)) \<and>
   (\<exists>y. JumpStartModelSpecs_to_json (example_spec_obj True) = Inr y \<and> json_value y \<and>
      (\<forall>attrs. \<exists>x'. JumpStartModelSpecs_from_json (JumpStartModelSpecs, attrs) y = Inr x' \<and>
                    JumpStartDataHolderType_eq x' (as_val (example_spec_obj True)) = Inr True))"
  using json_round_trip [of example_header example_header_obj example_ecr example_ecr_obj
      "example_spec True" "example_spec_obj True"]
    example_json(1,2) example_json(3) [of True] example_header_init example_ecr_init example_spec_init [of True]
  by blast

end
